theory Spec2Isabelle
  imports Main "HOL-Library.Sublist" "HOL-Library.Log_Nat"
begin

section \<open>The mini app controller (src/miniapp/app.js)\<close>

text \<open>
  Strings are byte strings: a JavaScript string is modelled by the UTF-8 bytes of its text.
  The functions of the controller only compare strings, concatenate them and search them
  for ASCII patterns, so nothing depends on the code-unit length of a string.
\<close>

subsection \<open>detectPlatform\<close>

text \<open>
  \<open>String.prototype.toLowerCase\<close>, on the ASCII letters. A non-ASCII character is a run
  of bytes above \<open>0x7F\<close>, which stays as it is. The patterns below are ASCII, and the
  two characters outside ASCII whose lower case has an ASCII letter cannot take part in a
  match: U+212A gives \<open>k\<close>, which no pattern has, and U+0130 gives \<open>i\<close> followed by
  U+0307, while every \<open>i\<close> of a pattern is followed by a letter.
\<close>

definition lower_char :: "char \<Rightarrow> char" where
  "lower_char c =
     (let n = (of_char c :: nat) in if 65 \<le> n \<and> n \<le> 90 then char_of (n + 32) else c)"

definition toLowerCase :: "string \<Rightarrow> string" where
  "toLowerCase s = map lower_char s"

text \<open>\<open>/p/.test(s)\<close> for a pattern without metacharacters: \<open>p\<close> occurs in \<open>s\<close>.\<close>

fun occurs_in :: "string \<Rightarrow> string \<Rightarrow> bool" where
  "occurs_in p [] = (p = [])"
| "occurs_in p (c # cs) = (prefix p (c # cs) \<or> occurs_in p cs)"

text \<open>\<open>/p1|p2|.../.test(s)\<close>: one of the alternatives occurs in \<open>s\<close>.\<close>

definition test_any :: "string list \<Rightarrow> string \<Rightarrow> bool" where
  "test_any ps s = list_ex (\<lambda>p. occurs_in p s) ps"

definition detectPlatform :: "string \<Rightarrow> string" where
  "detectPlatform userAgent =
     (let ua = toLowerCase userAgent in
      if test_any [''iphone'', ''ipad'', ''ipod''] ua then ''ios''
      else if test_any [''android''] ua then ''android''
      else if test_any [''windows''] ua then ''windows''
      else if test_any [''macintosh'', ''mac os x''] ua then ''mac''
      else if test_any [''linux''] ua then ''linux''
      else if test_any [''tv''] ua then ''androidTV''
      else ''generic'')"

text \<open>The patterns of the six tests, on the lower-cased user agent.\<close>

definition is_ios :: "string \<Rightarrow> bool" where
  "is_ios userAgent = test_any [''iphone'', ''ipad'', ''ipod''] (toLowerCase userAgent)"

definition is_android :: "string \<Rightarrow> bool" where
  "is_android userAgent = test_any [''android''] (toLowerCase userAgent)"

definition is_windows :: "string \<Rightarrow> bool" where
  "is_windows userAgent = test_any [''windows''] (toLowerCase userAgent)"

definition is_mac :: "string \<Rightarrow> bool" where
  "is_mac userAgent = test_any [''macintosh'', ''mac os x''] (toLowerCase userAgent)"

definition is_linux :: "string \<Rightarrow> bool" where
  "is_linux userAgent = test_any [''linux''] (toLowerCase userAgent)"

definition is_tv :: "string \<Rightarrow> bool" where
  "is_tv userAgent = test_any [''tv''] (toLowerCase userAgent)"

definition platform_tags :: "string list" where
  "platform_tags = [''ios'', ''android'', ''windows'', ''mac'', ''linux'', ''androidTV'', ''generic'']"

subsection \<open>Values and numbers\<close>

text \<open>
  A value of the payload, as far as \<open>typeof\<close> and truthiness see it. A number is a finite
  IEEE-754 double, given by its exact rational value; JSON text yields no NaN, and the
  quotient of a finite double by 100 is finite.
\<close>

datatype jsval = JUndefined | JNull | JBool bool | JNum rat | JStr string | JObject

definition pow2 :: "int \<Rightarrow> rat" where
  "pow2 e = (if 0 \<le> e then 2 ^ nat e else 1 / 2 ^ nat (- e))"

text \<open>The exponent of a positive number: \<open>\<lfloor>log\<^sub>2 a\<rfloor>\<close>.\<close>

definition binade :: "rat \<Rightarrow> int" where
  "binade a =
     (if 1 \<le> a then int (floorlog 2 (nat \<lfloor>a\<rfloor>)) - 1
      else let k = int (floorlog 2 (nat \<lfloor>1 / a\<rfloor>)) - 1
           in if a = pow2 (- k) then - k else - k - 1)"

definition round_half_even :: "rat \<Rightarrow> int" where
  "round_half_even q =
     (let f = \<lfloor>q\<rfloor>; d = q - of_int f
      in if d < 1 / 2 then f else if 1 / 2 < d then f + 1 else if even f then f else f + 1)"

text \<open>
  Rounding of an exact result to the nearest double, ties to even: 53 significant bits,
  the exponent not below that of the subnormal numbers.
\<close>

definition fl64 :: "rat \<Rightarrow> rat" where
  "fl64 x =
     (if x = 0 then 0
      else let a = \<bar>x\<bar>; u = pow2 (max (binade a) (- 1022) - 52)
           in sgn x * of_int (round_half_even (a / u)) * u)"

text \<open>The operator \<open>/\<close> on numbers (the divisor is not zero wherever the code divides).\<close>

definition js_div :: "rat \<Rightarrow> rat \<Rightarrow> rat" where
  "js_div a b = fl64 (a / b)"

text \<open>
  Where a number may be too large for a double: the number that \<open>JSON.parse\<close> or
  \<open>Number\<close> makes of a numeral of value \<open>x\<close>, and the result of an operation whose
  exact result is \<open>x\<close>. Rounding that reaches \<open>2\<^sup>1\<^sup>0\<^sup>2\<^sup>4\<close> gives an infinity.
\<close>

datatype jsnum = Fin rat | PosInf | NegInf

definition to_double :: "rat \<Rightarrow> jsnum" where
  "to_double x =
     (let y = fl64 x
      in if pow2 1024 \<le> \<bar>y\<bar> then (if 0 < y then PosInf else NegInf) else Fin y)"

text \<open>\<open>x / 100\<close> on such a number.\<close>

definition div100 :: "jsnum \<Rightarrow> jsnum" where
  "div100 x = (case x of Fin d \<Rightarrow> to_double (d / 100) | PosInf \<Rightarrow> PosInf | NegInf \<Rightarrow> NegInf)"

definition digit :: "nat \<Rightarrow> char" where
  "digit d = ''0123456789'' ! (d mod 10)"

text \<open>The decimal digits of a natural number.\<close>

fun dec_nat :: "nat \<Rightarrow> string" where
  "dec_nat n = (if n < 10 then [digit n] else dec_nat (n div 10) @ [digit (n mod 10)])"

declare dec_nat.simps [simp del]

text \<open>
  \<open>Number.prototype.toFixed\<close> (ECMAScript 21.1.3.3) on a finite number: the sign, then
  the integer \<open>n\<close> for which \<open>n / 10\<^sup>f\<close> is nearest to the number (the larger one of two),
  written with \<open>f\<close> digits after the point. From \<open>10\<^sup>2\<^sup>1\<close> on the result is the host's
  \<open>Number::toString\<close>, which is a parameter here.
\<close>

definition toFixed :: "(rat \<Rightarrow> string) \<Rightarrow> rat \<Rightarrow> nat \<Rightarrow> string" where
  "toFixed numberToString x f =
     (let s = (if x < 0 then ''-'' else []); a = \<bar>x\<bar>
      in if 10 ^ 21 \<le> a then s @ numberToString a
         else let n = nat \<lfloor>a * 10 ^ f + 1 / 2\<rfloor>;
                  m = dec_nat n;
                  m = (if length m \<le> f then replicate (f + 1 - length m) (CHR ''0'') @ m else m);
                  k = length m
              in s @ (if f = 0 then m else take (k - f) m @ ''.'' @ drop (k - f) m))"

subsection \<open>String literals and helpers\<close>

text \<open>
  The string literals of the source that are not ASCII, byte for byte as the source file
  holds them: the placeholder of \<open>formatDate\<close> and \<open>formatAmount\<close>, the default currency
  sign, the separator of \<open>join\<close>, the default icon of a payment method and the label of
  the pay button while a request is open.
\<close>

definition placeholder :: string where
  "placeholder = [CHR 0xC3, CHR 0xA2, CHR 0xE2, CHR 0x82, CHR 0xAC, CHR 0xE2, CHR 0x80, CHR 0x9D]"

definition default_currency :: string where
  "default_currency = [CHR 0xC3, CHR 0xA2, CHR 0xE2, CHR 0x80, CHR 0x9A, CHR 0xC2, CHR 0xBD]"

definition dot_separator :: string where
  "dot_separator = [CHR 0x20, CHR 0xC3, CHR 0x82, CHR 0xC2, CHR 0xB7, CHR 0x20]"

definition default_icon :: string where
  "default_icon = [CHR 0xC3, CHR 0xB0, CHR 0xC5, CHR 0xB8, CHR 0xE2, CHR 0x80, CHR 0x99, CHR 0xC2, CHR 0xB3]"

definition opening_label :: string where
  "opening_label = ''Opening'' @ [CHR 0xC3, CHR 0xA2, CHR 0xE2, CHR 0x82, CHR 0xAC, CHR 0xC2, CHR 0xA6]"

text \<open>
  An optional string field: \<open>None\<close> is a field that is absent (\<open>undefined\<close> or \<open>null\<close>).
  Absent and the empty string are the falsy ones.
\<close>

definition truthy :: "string option \<Rightarrow> bool" where
  "truthy v = (case v of None \<Rightarrow> False | Some s \<Rightarrow> s \<noteq> [])"

text \<open>\<open>v || d\<close> for a default string \<open>d\<close>.\<close>

definition or_else :: "string option \<Rightarrow> string \<Rightarrow> string" where
  "or_else v d = (case v of None \<Rightarrow> d | Some s \<Rightarrow> if s = [] then d else s)"

text \<open>A number field is falsy when it is absent or zero; an infinity is truthy.\<close>

definition num_truthy :: "jsnum option \<Rightarrow> bool" where
  "num_truthy v = (case v of None \<Rightarrow> False | Some (Fin x) \<Rightarrow> x \<noteq> 0 | Some _ \<Rightarrow> True)"

text \<open>\<open>Array.prototype.join\<close>.\<close>

fun join :: "string \<Rightarrow> string list \<Rightarrow> string" where
  "join sep [] = []"
| "join sep [x] = x"
| "join sep (x # y # ys) = x @ sep @ join sep (y # ys)"

text \<open>\<open>Set.prototype.add\<close> and \<open>classList.add\<close>: insertion order, no duplicates.\<close>

definition set_add :: "'a \<Rightarrow> 'a list \<Rightarrow> 'a list" where
  "set_add x xs = (if x \<in> set xs then xs else xs @ [x])"

text \<open>
  \<open>classList.toggle(token, force)\<close>: a Boolean \<open>force\<close> adds or removes the token; with
  \<open>force\<close> undefined the token is flipped.
\<close>

definition class_toggle :: "string \<Rightarrow> bool option \<Rightarrow> string list \<Rightarrow> string list" where
  "class_toggle c force cls =
     (case force of
        Some True \<Rightarrow> set_add c cls
      | Some False \<Rightarrow> removeAll c cls
      | None \<Rightarrow> if c \<in> set cls then removeAll c cls else cls @ [c])"

subsection \<open>The host environment\<close>

text \<open>
  What the page reads from its surroundings: the Telegram WebApp object (absent outside
  Telegram), the \<open>initData\<close> parameter of the page URL, the navigator's user agent and
  language, and what depends on the JavaScript engine and the locale: \<open>Number::toString\<close>,
  \<open>Intl.DateTimeFormat(...).format(new Date(value))\<close>, which is \<open>None\<close> where it throws,
  and the message of the \<open>TypeError\<close> that reading a property of \<open>null\<close> throws, by
  the name of the property.
\<close>

record telegram =
  tg_initData :: "string option"
  tg_query_id :: "string option"
  tg_language_code :: "string option"

record host =
  tg :: "telegram option"
  query_initData :: "string option"
  userAgent :: string
  navigator_language :: "string option"
  numberToString :: "rat \<Rightarrow> string"
  dateTimeFormat :: "string \<Rightarrow> string option"
  nullPropertyMessage :: "string \<Rightarrow> string"

definition readInitData :: "host \<Rightarrow> string" where
  "readInitData h =
     (let fromTg =
            (case tg h of
               None \<Rightarrow> Some []
             | Some t \<Rightarrow>
                 if truthy (tg_initData t) \<or> truthy (tg_query_id t) then tg_initData t else Some []);
          fromQuery = or_else (query_initData h) []
      in or_else fromTg fromQuery)"

definition formatDate :: "host \<Rightarrow> string option \<Rightarrow> string" where
  "formatDate h v =
     (case v of
        None \<Rightarrow> placeholder
      | Some s \<Rightarrow>
          if s = [] then placeholder
          else (case dateTimeFormat h s of Some d \<Rightarrow> d | None \<Rightarrow> s))"

text \<open>\<open>formatAmount(kopeks, currency)\<close>; the currency \<open>None\<close> is the parameter left out.\<close>

definition formatAmount :: "host \<Rightarrow> jsval \<Rightarrow> string option \<Rightarrow> string" where
  "formatAmount h kopeks currency =
     (case kopeks of
        JNum x \<Rightarrow>
          toFixed (numberToString h) (js_div x 100) 2 @ '' ''
            @ (case currency of None \<Rightarrow> default_currency | Some c \<Rightarrow> c)
      | _ \<Rightarrow> placeholder)"

subsection \<open>resolveI18n\<close>

text \<open>
  A text of the configuration: absent, a plain string, or an object from language tags to
  strings, given by its own properties in the order \<open>Object.values\<close> lists them (the
  keys are language tags, none of them a property that every object inherits).
\<close>

datatype i18n = I18nAbsent | I18nText string | I18nMap "(string \<times> string) list"

definition active_language :: "host \<Rightarrow> string" where
  "active_language h =
     or_else (case tg h of None \<Rightarrow> None | Some t \<Rightarrow> tg_language_code t)
       (or_else (map_option (take 2) (navigator_language h)) ''en'')"

text \<open>\<open>a || rest\<close> where \<open>a\<close> is a property that holds a string or is undefined.\<close>

definition str_or :: "string option \<Rightarrow> jsval \<Rightarrow> jsval" where
  "str_or a rest = (case a of None \<Rightarrow> rest | Some s \<Rightarrow> if s = [] then rest else JStr s)"

definition resolveI18n :: "host \<Rightarrow> i18n \<Rightarrow> jsval" where
  "resolveI18n h entity =
     (case entity of
        I18nAbsent \<Rightarrow> JNull
      | I18nText s \<Rightarrow> if s = [] then JNull else JStr s
      | I18nMap m \<Rightarrow>
          let lang = active_language h in
          str_or (map_of m lang)
            (str_or (map_of m ''en'')
               (case m of [] \<Rightarrow> JUndefined | (k, v) # _ \<Rightarrow> JStr v)))"

text \<open>\<open>resolveI18n(x) || d\<close>.\<close>

definition i18n_or :: "jsval \<Rightarrow> string \<Rightarrow> string" where
  "i18n_or v d = (case v of JStr s \<Rightarrow> if s = [] then d else s | _ \<Rightarrow> d)"

subsection \<open>Payloads\<close>

text \<open>
  The documents the remote service and the configuration file deliver, typed as the
  controller reads them. A field that may be missing is an option; a missing array is
  \<open>None\<close>. Fields the controller never reads are left out.
\<close>

record user_info =
  display_name :: "string option"
  subscription_status :: "string option"
  has_active_subscription :: bool
  subscription_missing :: "bool option"
  expires_at :: "string option"
  traffic_limit_label :: "string option"
  status_label :: "string option"
  user_status :: "string option"

record device =
  device_platform :: "string option"
  device_model :: "string option"
  app_version :: "string option"

record transaction =
  tx_description :: "string option"
  tx_type :: "string option"
  created_at :: "string option"
  amount_kopeks :: jsval
  is_completed :: bool

record subscription =
  sub_user :: "user_info option"
  subscription_missing_reason :: "string option"
  balance_kopeks :: jsval
  balance_currency :: "string option"
  connected_devices_count :: "nat option"
  subscription_url :: "string option"
  happ_link :: "string option"
  happ_crypto_link :: "string option"
  links :: "string list option"
  connected_devices :: "device list option"
  transactions :: "transaction list option"

record guide_button =
  buttonLink :: "string option"
  buttonText :: i18n

record guide_step =
  step_description :: i18n
  step_buttons :: "guide_button list"

record client =
  installationStep :: "guide_step option"
  addSubscriptionStep :: "guide_step option"
  connectAndUseStep :: "guide_step option"

record branding =
  supportUrl :: "string option"
  brand_name :: "string option"
  brand_description :: "string option"
  logoUrl :: "string option"

record app_config =
  cfg_branding :: "branding option"
  cfg_platforms :: "(string \<times> client list) list"

text \<open>The object \<open>{}\<close> that \<open>loadConfig\<close> falls back to.\<close>

definition empty_config :: app_config where
  "empty_config = \<lparr>cfg_branding = None, cfg_platforms = []\<rparr>"

record pay_option =
  option_id :: string
  option_title :: "string option"

text \<open>
  The two amounts of a payment method are given by the value of the numeral in the JSON
  text; the controller works with the number that \<open>JSON.parse\<close> makes of it.
\<close>

record pay_method =
  method_id :: string
  method_name :: "string option"
  method_icon :: "string option"
  requires_amount :: bool
  min_amount_kopeks :: "rat option"
  amount_step_kopeks :: "rat option"
  method_currency :: "string option"
  method_options :: "pay_option list"

record payment_request =
  req_initData :: string
  req_method :: string
  req_amountRubles :: "jsnum option"
  req_option :: "string option"

text \<open>
  The document of a payment-create response. Where the reply holds it as an option,
  \<open>None\<close> is the JSON value \<open>null\<close>; a number, string, Boolean or array reads like an
  object without \<open>payment_url\<close>.
\<close>

record payment_response =
  payment_url :: "string option"

subsection \<open>The network\<close>

text \<open>
  What one \<open>fetch\<close> can come to: the promise rejects (with the message of its error), or
  there is a response with its \<open>ok\<close> flag, its status, its body text and what parsing the
  body as JSON gives: the typed document, or the message of the syntax error.
\<close>

datatype 'a fetched = Rejects string | Response bool nat string "string + 'a"

text \<open>\<open>fetchJson\<close>: the document, or (\<open>Inl\<close>) the message of the error it throws.\<close>

definition fetchJson :: "'a fetched \<Rightarrow> string + 'a" where
  "fetchJson r =
     (case r of
        Rejects msg \<Rightarrow> Inl msg
      | Response ok status text json \<Rightarrow>
          if \<not> ok then Inl (if text \<noteq> [] then text else ''Request failed ('' @ dec_nat status @ '')'')
          else json)"

text \<open>\<open>safeJsonParse\<close> of a response's body: \<open>null\<close> where the body does not parse.\<close>

definition safeJsonParse :: "string + 'a option \<Rightarrow> 'a option" where
  "safeJsonParse json = (case json of Inl err \<Rightarrow> None | Inr v \<Rightarrow> v)"

subsection \<open>The page\<close>

text \<open>What the render functions put into the lists of the page.\<close>

record tx_item =
  item_title :: string
  item_date :: string
  item_success :: bool
  item_amount :: string

record guide_block =
  block_title :: string
  block_text :: string
  block_buttons :: "(string option \<times> string) list"

record amount_input =
  input_min :: jsnum
  input_step :: jsnum
  input_value :: "jsnum option"

record select_input =
  select_options :: "(string \<times> string) list"
  select_value :: string

text \<open>
  The block of one payment method: its texts, the pay button, and the amount field and the
  option list where the method has them. The value of a number field is the number it
  holds, \<open>None\<close> for the empty field.
\<close>

record pay_widget =
  widget_method :: pay_method
  widget_icon :: string
  widget_title :: string
  widget_meta :: string
  button_disabled :: bool
  button_text :: string
  amount_field :: "amount_input option"
  option_field :: "select_input option"

text \<open>
  The state of one page: \<open>appState\<close>, the elements behind \<open>selectors\<close> as far as the
  controller writes them (the theme attribute apart, which no function below reads), and
  what a bootstrap pass does to the outside: the URLs it fetches, in order, and its
  console messages.
\<close>

record page =
  st_initData :: string
  st_subscription :: "subscription option"
  st_config :: "app_config option"
  st_paymentMethods :: "pay_method list"
  st_platform :: string
  brandLogo_image :: "string option"
  brandLogo_text :: string
  brandTitle :: string
  supportLink_href :: string
  supportCopy :: string
  statusBadge_text :: string
  statusBadge_classes :: "string list"
  subscriptionTitle :: string
  subscriptionMeta :: string
  highlightGrid :: "(string \<times> string) list"
  actionsCard_hidden :: bool
  actionList :: "string list"
  paymentsCard_hidden :: bool
  paymentMethods :: "pay_widget list"
  devicesCard_hidden :: bool
  deviceList :: "string list"
  transactionsCard_hidden :: bool
  transactionList :: "tx_item list"
  platformCard_hidden :: bool
  platformBlock :: "guide_block list"
  platformHint :: "string option"
  fetches :: "string list"
  console :: "string list"

subsection \<open>Rendering\<close>

text \<open>\<open>u?.f\<close>: the field of an object that may be absent.\<close>

definition opt_field :: "'a option \<Rightarrow> ('a \<Rightarrow> 'b option) \<Rightarrow> 'b option" where
  "opt_field u f = (case u of None \<Rightarrow> None | Some x \<Rightarrow> f x)"

definition renderStatusCard :: "host \<Rightarrow> subscription \<Rightarrow> page \<Rightarrow> page" where
  "renderStatusCard h sub p =
     (let u = sub_user sub;
          metaParts =
            (if truthy (subscription_missing_reason sub)
             then [the (subscription_missing_reason sub)] else [])
            @ (if truthy (opt_field u expires_at)
               then [''Expires '' @ formatDate h (opt_field u expires_at)] else []);
          meta = join dot_separator metaParts
      in p\<lparr>subscriptionTitle := or_else (opt_field u display_name) ''Subscription'',
            statusBadge_text := or_else (opt_field u subscription_status) ''Unknown'',
            statusBadge_classes :=
              class_toggle ''badge--danger'' (opt_field u subscription_missing)
                (class_toggle ''badge--success''
                   (Some (case u of None \<Rightarrow> False | Some x \<Rightarrow> has_active_subscription x))
                   (statusBadge_classes p)),
            subscriptionMeta := (if meta = [] then ''Active subscription overview.'' else meta),
            highlightGrid :=
              [(''Balance'',
                formatAmount h (balance_kopeks sub)
                  (Some (or_else (balance_currency sub) default_currency))),
               (''Traffic'', or_else (opt_field u traffic_limit_label) ''Unlimited''),
               (''Devices'',
                dec_nat (case connected_devices_count sub of None \<Rightarrow> 0 | Some n \<Rightarrow> n)),
               (''Status'',
                or_else (opt_field u status_label) (or_else (opt_field u user_status) placeholder))]\<rparr>)"

text \<open>The links of \<open>renderActions\<close>: a \<open>Set\<close>, in insertion order.\<close>

definition action_links :: "subscription \<Rightarrow> string list" where
  "action_links sub =
     (let l0 = (if truthy (subscription_url sub) then set_add (the (subscription_url sub)) [] else []);
          l1 = (if truthy (happ_link sub) then set_add (the (happ_link sub)) l0 else l0);
          l2 = (if truthy (happ_crypto_link sub) then set_add (the (happ_crypto_link sub)) l1 else l1)
      in foldl (\<lambda>acc link. set_add link acc) l2
           (case links sub of None \<Rightarrow> [] | Some ls \<Rightarrow> ls))"

definition renderActions :: "subscription \<Rightarrow> page \<Rightarrow> page" where
  "renderActions sub p =
     (let ls = action_links sub
      in if ls = [] then p\<lparr>actionList := [], actionsCard_hidden := True\<rparr>
         else p\<lparr>actionList := ls, actionsCard_hidden := False\<rparr>)"

definition device_label :: "device \<Rightarrow> string" where
  "device_label d =
     (let label = join dot_separator
            (map the (filter truthy [device_platform d, device_model d, app_version d]))
      in if label = [] then ''Device'' else label)"

definition renderDevices :: "subscription \<Rightarrow> page \<Rightarrow> page" where
  "renderDevices sub p =
     (let devices = (case connected_devices sub of None \<Rightarrow> [] | Some ds \<Rightarrow> ds)
      in if devices = [] then p\<lparr>deviceList := [], devicesCard_hidden := True\<rparr>
         else p\<lparr>deviceList := map device_label devices, devicesCard_hidden := False\<rparr>)"

definition transaction_item :: "host \<Rightarrow> transaction \<Rightarrow> tx_item" where
  "transaction_item h tx =
     \<lparr>item_title =
        or_else (tx_description tx) (case tx_type tx of None \<Rightarrow> ''undefined'' | Some t \<Rightarrow> t),
      item_date = formatDate h (created_at tx),
      item_success = is_completed tx,
      item_amount = formatAmount h (amount_kopeks tx) None\<rparr>"

definition renderTransactions :: "host \<Rightarrow> subscription \<Rightarrow> page \<Rightarrow> page" where
  "renderTransactions h sub p =
     (let txs = take 5 (case transactions sub of None \<Rightarrow> [] | Some ts \<Rightarrow> ts)
      in if txs = [] then p\<lparr>transactionList := [], transactionsCard_hidden := True\<rparr>
         else p\<lparr>transactionList := map (transaction_item h) txs,
                 transactionsCard_hidden := False\<rparr>)"

definition guide_blocks :: "host \<Rightarrow> client \<Rightarrow> guide_block list" where
  "guide_blocks h c =
     (let desc = (\<lambda>s. case s of None \<Rightarrow> I18nAbsent | Some st \<Rightarrow> step_description st);
          block = (\<lambda>title d buttons.
            \<lparr>block_title = title,
             block_text = i18n_or (resolveI18n h d) [],
             block_buttons =
               map (\<lambda>b. (buttonLink b, i18n_or (resolveI18n h (buttonText b)) ''Open'')) buttons\<rparr>)
      in [block ''Install the app'' (desc (installationStep c))
            (case installationStep c of None \<Rightarrow> [] | Some st \<Rightarrow> step_buttons st),
          block ''Add subscription'' (desc (addSubscriptionStep c)) [],
          block ''Connect & browse'' (desc (connectAndUseStep c)) []])"

definition renderPlatformGuide :: "host \<Rightarrow> app_config option \<Rightarrow> subscription \<Rightarrow> page \<Rightarrow> page" where
  "renderPlatformGuide h config sub p =
     (let platformSteps =
            (case config of None \<Rightarrow> None | Some c \<Rightarrow> map_of (cfg_platforms c) (st_platform p))
      in case platformSteps of
           None \<Rightarrow> p\<lparr>platformBlock := [], platformHint := None, platformCard_hidden := True\<rparr>
         | Some [] \<Rightarrow> p\<lparr>platformBlock := [], platformHint := None, platformCard_hidden := True\<rparr>
         | Some (c # cs) \<Rightarrow>
             p\<lparr>platformBlock := guide_blocks h c,
               platformHint :=
                 (if truthy (subscription_url sub) then subscription_url sub else None),
               platformCard_hidden := False\<rparr>)"

subsection \<open>The payment panel\<close>

text \<open>
  What a number field holds once the string of the number \<open>x\<close> is assigned to its value:
  the text of a finite number is a valid floating-point number and stays, and reads back
  as the same number; \<open>Infinity\<close> and \<open>-Infinity\<close> are none, and the value sanitization
  of the field replaces them by the empty string.
\<close>

definition field_number :: "jsnum \<Rightarrow> jsnum option" where
  "field_number x = (case x of Fin d \<Rightarrow> Some (Fin d) | PosInf \<Rightarrow> None | NegInf \<Rightarrow> None)"

text \<open>
  The amount field of a method that requires an amount. \<open>input.min\<close> is the string of a
  number, which is never empty, so \<open>input.min || 100\<close> is \<open>input.min\<close>.
\<close>

definition amount_input_of :: "pay_method \<Rightarrow> amount_input" where
  "amount_input_of m =
     (let min_amount = map_option to_double (min_amount_kopeks m);
          amount_step = map_option to_double (amount_step_kopeks m);
          min = (if num_truthy min_amount then div100 (the min_amount) else Fin 1);
          step = (if num_truthy amount_step then div100 (the amount_step) else Fin 1)
      in \<lparr>input_min = min, input_step = step, input_value = field_number min\<rparr>)"

text \<open>The option list of a method with options; a new \<open>select\<close> shows its first option.\<close>

definition select_input_of :: "pay_option list \<Rightarrow> select_input option" where
  "select_input_of opts =
     (case opts of
        [] \<Rightarrow> None
      | opt # rest \<Rightarrow>
          Some \<lparr>select_options = map (\<lambda>x. (option_id x, or_else (option_title x) (option_id x))) opts,
                select_value = option_id opt\<rparr>)"

definition payment_widget :: "pay_method \<Rightarrow> pay_widget" where
  "payment_widget m =
     \<lparr>widget_method = m,
      widget_icon = or_else (method_icon m) default_icon,
      widget_title = or_else (method_name m) (method_id m),
      widget_meta = (if requires_amount m then ''Enter an amount'' else ''Fixed amount or redirect''),
      button_disabled = False,
      button_text = ''Pay'',
      amount_field = (if requires_amount m then Some (amount_input_of m) else None),
      option_field = select_input_of (method_options m)\<rparr>"

definition renderPayments :: "pay_method list \<Rightarrow> page \<Rightarrow> page" where
  "renderPayments methods p =
     (if methods = [] then p\<lparr>paymentMethods := [], paymentsCard_hidden := True\<rparr>
      else p\<lparr>paymentMethods := map payment_widget methods, paymentsCard_hidden := False\<rparr>)"

subsection \<open>The pay button\<close>

text \<open>
  One pay button at work: its block, the payment-create requests sent for it in order, how
  many of them have not settled yet, and the alerts, opened windows and console errors.
\<close>

record pay_session =
  widget :: pay_widget
  outbox :: "payment_request list"
  in_flight :: nat
  alerts :: "string list"
  opened :: "string list"
  errors :: "string list"

definition new_session :: "pay_method \<Rightarrow> pay_session" where
  "new_session m =
     \<lparr>widget = payment_widget m, outbox = [], in_flight = 0, alerts = [], opened = [], errors = []\<rparr>"

text \<open>The request the click handler builds from the fields of the block.\<close>

definition payload_of :: "string \<Rightarrow> pay_widget \<Rightarrow> payment_request" where
  "payload_of initData w =
     (let m = widget_method w;
          amountField = (if requires_amount m then amount_field w else None);
          optionField = (if method_options m \<noteq> [] then option_field w else None)
      in \<lparr>req_initData = initData,
          req_method = method_id m,
          req_amountRubles =
            (case amountField of
               None \<Rightarrow> None
             | Some f \<Rightarrow> Some (case input_value f of None \<Rightarrow> Fin 0 | Some v \<Rightarrow> v)),
          req_option = map_option select_value optionField\<rparr>)"

text \<open>
  The click handler up to its \<open>await\<close>: the button is disabled and relabelled, and the
  request goes out.
\<close>

definition click :: "string \<Rightarrow> pay_session \<Rightarrow> pay_session" where
  "click initData s =
     s\<lparr>widget := (widget s)\<lparr>button_disabled := True, button_text := opening_label\<rparr>,
       outbox := outbox s @ [payload_of initData (widget s)],
       in_flight := in_flight s + 1\<rparr>"

text \<open>
  What the \<open>try\<close> block of the handler comes to once the request has settled with the
  reply \<open>r\<close>: the response object, or the message of the error thrown in it, by
  \<open>fetchJson\<close> or by reading \<open>response.payment_url\<close> of \<open>null\<close>.
\<close>

definition try_result :: "host \<Rightarrow> payment_response option fetched \<Rightarrow> string + payment_response" where
  "try_result h r =
     (case fetchJson r of
        Inl message \<Rightarrow> Inl message
      | Inr None \<Rightarrow> Inl (nullPropertyMessage h ''payment_url'')
      | Inr (Some response) \<Rightarrow> Inr response)"

text \<open>The rest of the handler, once the request has settled with the reply \<open>r\<close>.\<close>

definition settle :: "host \<Rightarrow> payment_response option fetched \<Rightarrow> pay_session \<Rightarrow> pay_session" where
  "settle h r s =
     (case try_result h r of
        Inr response \<Rightarrow>
          s\<lparr>opened :=
              (if truthy (payment_url response) then opened s @ [the (payment_url response)]
               else opened s),
            widget := (widget s)\<lparr>button_text := ''Open again'', button_disabled := False\<rparr>,
            in_flight := in_flight s - 1\<rparr>
      | Inl message \<Rightarrow>
          s\<lparr>errors := errors s @ [message],
            alerts := alerts s @ [''Cannot start payment: '' @ message],
            widget := (widget s)\<lparr>button_text := ''Try again'', button_disabled := False\<rparr>,
            in_flight := in_flight s - 1\<rparr>)"

text \<open>
  The user edits the amount field: it then holds the number of the text typed, or nothing
  when it is cleared.
\<close>

definition enter_amount :: "jsnum option \<Rightarrow> pay_session \<Rightarrow> pay_session" where
  "enter_amount v s =
     s\<lparr>widget := (widget s)\<lparr>amount_field :=
          map_option (\<lambda>f. f\<lparr>input_value := v\<rparr>) (amount_field (widget s))\<rparr>\<rparr>"

text \<open>
  What can happen to a pay button. A browser delivers no click to a disabled button, so
  the handler starts only on an enabled one; a request that is under way settles with some
  reply; the user edits the amount at any time.
\<close>

inductive step :: "host \<Rightarrow> string \<Rightarrow> pay_session \<Rightarrow> pay_session \<Rightarrow> bool"
  for h :: host and initData :: string where
  Click: "\<not> button_disabled (widget s) \<Longrightarrow> step h initData s (click initData s)"
| Settle: "0 < in_flight s \<Longrightarrow> step h initData s (settle h r s)"
| Edit: "step h initData s (enter_amount v s)"

inductive reachable :: "host \<Rightarrow> string \<Rightarrow> pay_method \<Rightarrow> pay_session \<Rightarrow> bool"
  for h :: host and initData :: string and m :: pay_method where
  Start: "reachable h initData m (new_session m)"
| Next: "reachable h initData m s \<Longrightarrow> step h initData s s' \<Longrightarrow> reachable h initData m s'"

text \<open>
  The states a pay button reaches while nobody edits its amount field: by clicks and
  settled requests alone.
\<close>

inductive untouched :: "host \<Rightarrow> string \<Rightarrow> pay_method \<Rightarrow> pay_session \<Rightarrow> bool"
  for h :: host and initData :: string and m :: pay_method where
  Fresh: "untouched h initData m (new_session m)"
| Clicked: "untouched h initData m s \<Longrightarrow> \<not> button_disabled (widget s)
     \<Longrightarrow> untouched h initData m (click initData s)"
| Settled: "untouched h initData m s \<Longrightarrow> 0 < in_flight s
     \<Longrightarrow> untouched h initData m (settle h r s)"

text \<open>The states of the workflow, as the pay button shows them.\<close>

datatype flow_state = Idle | Submitting | Succeeded | Failed

definition flow_state :: "pay_widget \<Rightarrow> flow_state" where
  "flow_state w =
     (if button_text w = opening_label then Submitting
      else if button_text w = ''Open again'' then Succeeded
      else if button_text w = ''Try again'' then Failed
      else Idle)"

subsection \<open>Loading and bootstrap\<close>

text \<open>How a call of an async function ends: it returns, or it throws an error (its message).\<close>

datatype completion = Returned | Threw string

text \<open>
  \<open>loadConfig\<close>: \<open>fetch\<close> without a look at the status; the body goes through
  \<open>safeJsonParse\<close>, and a document without a \<open>config\<close> gives the empty configuration.
\<close>

definition loadConfig :: "app_config option fetched \<Rightarrow> page \<Rightarrow> completion \<times> page" where
  "loadConfig r p =
     (let p = p\<lparr>fetches := fetches p @ [''app-config.json'']\<rparr>
      in case r of
           Rejects msg \<Rightarrow> (Threw msg, p)
         | Response ok status text json \<Rightarrow>
             let p = (case json of Inl err \<Rightarrow> p\<lparr>console := console p @ [''Failed to parse JSON'']\<rparr>
                      | Inr v \<Rightarrow> p);
                 config = (case safeJsonParse json of None \<Rightarrow> empty_config | Some c \<Rightarrow> c);
                 b = cfg_branding config;
                 p = p\<lparr>st_config := Some config,
                        supportLink_href := or_else (opt_field b supportUrl) ''https://t.me'',
                        brandTitle := or_else (opt_field b brand_name) ''Bedolaga VPN'',
                        supportCopy := or_else (opt_field b brand_description) (supportCopy p)\<rparr>
             in (Returned,
                 if truthy (opt_field b logoUrl)
                 then p\<lparr>brandLogo_image := opt_field b logoUrl, brandLogo_text := []\<rparr>
                 else p))"

definition loadSubscription :: "host \<Rightarrow> subscription fetched \<Rightarrow> page \<Rightarrow> completion \<times> page" where
  "loadSubscription h r p =
     (let p = p\<lparr>fetches := fetches p @ [''/miniapp/subscription'']\<rparr>
      in case fetchJson r of
           Inl msg \<Rightarrow> (Threw msg, p)
         | Inr data \<Rightarrow>
             (Returned,
              renderPlatformGuide h (st_config p) data
                (renderTransactions h data
                   (renderDevices data
                      (renderActions data
                         (renderStatusCard h data (p\<lparr>st_subscription := Some data\<rparr>)))))))"

text \<open>\<open>loadPayments\<close> catches what it throws; the document's \<open>methods\<close> may be missing.\<close>

definition loadPayments :: "pay_method list option fetched \<Rightarrow> page \<Rightarrow> page" where
  "loadPayments r p =
     (let p = p\<lparr>fetches := fetches p @ [''/miniapp/payments/methods'']\<rparr>
      in case fetchJson r of
           Inr data \<Rightarrow>
             (let methods = (case data of None \<Rightarrow> [] | Some ms \<Rightarrow> ms)
              in renderPayments methods (p\<lparr>st_paymentMethods := methods\<rparr>))
         | Inl msg \<Rightarrow>
             p\<lparr>console := console p @ [''Payments unavailable''], paymentsCard_hidden := True\<rparr>)"

definition showInitError :: "page \<Rightarrow> page" where
  "showInitError p =
     p\<lparr>subscriptionTitle := ''Open in Telegram'',
       subscriptionMeta := ''We could not detect Telegram init data. Open the Mini App from the bot so we can load your subscription.'',
       statusBadge_text := ''Not authorized'',
       statusBadge_classes := set_add ''badge--danger'' (statusBadge_classes p),
       actionsCard_hidden := True,
       paymentsCard_hidden := True,
       devicesCard_hidden := True,
       transactionsCard_hidden := True,
       platformCard_hidden := True\<rparr>"

text \<open>The replies of the three endpoints a bootstrap pass can contact.\<close>

record network =
  config_reply :: "app_config option fetched"
  subscription_reply :: "subscription fetched"
  methods_reply :: "pay_method list option fetched"

text \<open>What the \<open>catch\<close> of \<open>bootstrap\<close> does with an error.\<close>

definition showLoadError :: "string \<Rightarrow> page \<Rightarrow> page" where
  "showLoadError msg p =
     p\<lparr>console := console p @ [msg],
       subscriptionMeta := ''Failed to load data. Pull to refresh or try again later.'',
       statusBadge_text := ''Error'',
       statusBadge_classes := set_add ''badge--danger'' (statusBadge_classes p)\<rparr>"

text \<open>
  \<open>bootstrap\<close>, on the page as the document delivers it: how its promise ends (nothing
  handles a rejection of it) and the page it leaves.
\<close>

definition bootstrap :: "host \<Rightarrow> network \<Rightarrow> page \<Rightarrow> completion \<times> page" where
  "bootstrap h net p =
     (let p = p\<lparr>st_initData := readInitData h, st_platform := detectPlatform (userAgent h)\<rparr>
      in case loadConfig (config_reply net) p of
           (Threw msg, p) \<Rightarrow> (Threw msg, p)
         | (Returned, p) \<Rightarrow>
             if st_initData p = [] then (Returned, showInitError p)
             else (case loadSubscription h (subscription_reply net) p of
                     (Threw msg, p) \<Rightarrow> (Returned, showLoadError msg p)
                   | (Returned, p) \<Rightarrow> (Returned, loadPayments (methods_reply net) p)))"

subsection \<open>Notions the properties are stated with\<close>

text \<open>The page once \<open>bootstrap\<close> has read the init data and the platform.\<close>

definition started :: "host \<Rightarrow> page \<Rightarrow> page" where
  "started h p = p\<lparr>st_initData := readInitData h, st_platform := detectPlatform (userAgent h)\<rparr>"

text \<open>A \<open>fetch\<close> that brings a response, whatever its status and body.\<close>

definition responds :: "'a fetched \<Rightarrow> bool" where
  "responds r = (case r of Rejects msg \<Rightarrow> False | Response ok status text json \<Rightarrow> True)"

definition init_error_text :: string where
  "init_error_text = ''We could not detect Telegram init data. Open the Mini App from the bot so we can load your subscription.''"

text \<open>The collections behind the device, transaction and link sections.\<close>

definition device_collection :: "subscription \<Rightarrow> device list" where
  "device_collection sub = (case connected_devices sub of None \<Rightarrow> [] | Some ds \<Rightarrow> ds)"

definition transaction_collection :: "subscription \<Rightarrow> transaction list" where
  "transaction_collection sub = (case transactions sub of None \<Rightarrow> [] | Some ts \<Rightarrow> ts)"

definition link_collection :: "subscription \<Rightarrow> string list" where
  "link_collection sub =
     map the (filter truthy [subscription_url sub, happ_link sub, happ_crypto_link sub])
     @ (case links sub of None \<Rightarrow> [] | Some ls \<Rightarrow> ls)"

text \<open>Every element once, at the place of its first occurrence.\<close>

definition first_occurrences :: "'a list \<Rightarrow> 'a list" where
  "first_occurrences xs = rev (remdups (rev xs))"

text \<open>The text of a language tag in an object, where it is there and not empty.\<close>

definition own_text :: "(string \<times> string) list \<Rightarrow> string \<Rightarrow> string option" where
  "own_text m k = (case map_of m k of None \<Rightarrow> None | Some s \<Rightarrow> if s = [] then None else Some s)"

text \<open>\<open>typeof v === 'number'\<close>.\<close>

definition typeof_number :: "jsval \<Rightarrow> bool" where
  "typeof_number v = (case v of JNum x \<Rightarrow> True | _ \<Rightarrow> False)"

text \<open>
  An amount of \<open>n\<close> minor units in major units with two decimals, from the integer itself:
  the digits of \<open>n div 100\<close>, a point, and the two digits of \<open>n mod 100\<close>.
\<close>

definition cents_text :: "nat \<Rightarrow> string" where
  "cents_text n = dec_nat (n div 100) @ ''.'' @ [digit (n div 10 mod 10), digit (n mod 10)]"

subsection \<open>Sample data\<close>

text \<open>
  A host inside Telegram and one without any init data, an empty page, and the replies of
  a service with one account and one payment method. The sample amounts stay far below
  \<open>10\<^sup>2\<^sup>1\<close>, so the \<open>numberToString\<close> of the sample host is never asked.
\<close>

definition demo_host :: host where
  "demo_host =
     \<lparr>tg = Some \<lparr>tg_initData = Some ''query_id=AAH&user=7'', tg_query_id = Some ''AAH'',
                  tg_language_code = Some ''ru''\<rparr>,
      query_initData = None,
      userAgent = ''Mozilla/5.0 (iPhone; CPU iPhone OS 17_0 like Mac OS X)'',
      navigator_language = Some ''en-US'',
      numberToString = (\<lambda>x. ''1e+21''),
      dateTimeFormat = (\<lambda>s. Some s),
      nullPropertyMessage = (\<lambda>name. ''Cannot read properties of null (reading '' @ name @ '')'')\<rparr>"

definition anonymous_host :: host where
  "anonymous_host = demo_host\<lparr>tg := None\<rparr>"

definition blank_page :: page where
  "blank_page =
     \<lparr>st_initData = [], st_subscription = None, st_config = None, st_paymentMethods = [],
      st_platform = ''generic'',
      brandLogo_image = None, brandLogo_text = ''B'', brandTitle = [], supportLink_href = [],
      supportCopy = [], statusBadge_text = ''Loading'', statusBadge_classes = [''badge''],
      subscriptionTitle = [], subscriptionMeta = [], highlightGrid = [],
      actionsCard_hidden = False, actionList = [],
      paymentsCard_hidden = False, paymentMethods = [],
      devicesCard_hidden = False, deviceList = [],
      transactionsCard_hidden = False, transactionList = [],
      platformCard_hidden = False, platformBlock = [], platformHint = None,
      fetches = [], console = []\<rparr>"

definition demo_transaction :: "nat \<Rightarrow> transaction" where
  "demo_transaction n =
     \<lparr>tx_description = Some (''Top-up '' @ dec_nat n), tx_type = Some ''deposit'',
      created_at = Some ''2025-01-01T00:00:00Z'', amount_kopeks = JNum (of_nat (100 * n)),
      is_completed = True\<rparr>"

definition demo_subscription :: subscription where
  "demo_subscription =
     \<lparr>sub_user = Some \<lparr>display_name = Some ''Ann'', subscription_status = Some ''active'',
                        has_active_subscription = True, subscription_missing = Some False,
                        expires_at = None, traffic_limit_label = None, status_label = None,
                        user_status = Some ''ACTIVE''\<rparr>,
      subscription_missing_reason = None,
      balance_kopeks = JNum 123456, balance_currency = None,
      connected_devices_count = None,
      subscription_url = Some ''https://sub.example/u7'', happ_link = None,
      happ_crypto_link = None, links = Some [''https://sub.example/u7''],
      connected_devices = None,
      transactions = Some (map demo_transaction [1, 2, 3, 4, 5, 6])\<rparr>"

definition demo_method :: pay_method where
  "demo_method =
     \<lparr>method_id = ''card'', method_name = Some ''Card'', method_icon = None,
      requires_amount = True, min_amount_kopeks = Some 5000, amount_step_kopeks = None,
      method_currency = Some ''RUB'', method_options = []\<rparr>"

definition demo_network :: network where
  "demo_network =
     \<lparr>config_reply = Response True 200 ''{}'' (Inr None),
      subscription_reply = Response True 200 ''{...}'' (Inr demo_subscription),
      methods_reply = Response True 200 ''{...}'' (Inr (Some [demo_method]))\<rparr>"

section \<open>Properties\<close>

subsection \<open>Helper lemmas\<close>

lemma occurs_in_sublist: "occurs_in p s \<longleftrightarrow> sublist p s"
  by (induction s) (auto simp: sublist_Cons_right)

lemmas pattern_defs = is_ios_def is_android_def is_windows_def is_mac_def is_linux_def is_tv_def

lemma foldl_set_add_first:
  "foldl (\<lambda>acc l. set_add l acc) [] xs = first_occurrences xs"
proof (induction xs rule: rev_induct)
  case Nil
  show ?case by (simp add: first_occurrences_def)
next
  case (snoc x xs)
  have "set (first_occurrences xs) = set xs" by (simp add: first_occurrences_def)
  with snoc show ?case by (simp add: set_add_def first_occurrences_def)
qed

lemma action_links_first: "action_links sub = first_occurrences (link_collection sub)"
proof -
  have "action_links sub = foldl (\<lambda>acc l. set_add l acc) [] (link_collection sub)"
    by (simp add: action_links_def link_collection_def Let_def set_add_def)
  then show ?thesis by (simp add: foldl_set_add_first)
qed

lemma loadConfig_initData: "st_initData (snd (loadConfig r p)) = st_initData p"
  by (simp add: loadConfig_def Let_def split: fetched.splits sum.splits)

lemma loadConfig_fetches: "fetches (snd (loadConfig r p)) = fetches p @ [''app-config.json'']"
  by (simp add: loadConfig_def Let_def split: fetched.splits sum.splits)

lemma loadConfig_responds: "responds r \<Longrightarrow> fst (loadConfig r p) = Returned"
  by (simp add: loadConfig_def responds_def Let_def split: fetched.splits sum.splits)

lemma loadSubscription_returns: "fetchJson r = Inr d \<Longrightarrow> fst (loadSubscription h r p) = Returned"
  by (simp add: loadSubscription_def Let_def)

lemma readInitData_empty:
  "readInitData h = [] \<longleftrightarrow> \<not> truthy (opt_field (tg h) tg_initData) \<and> \<not> truthy (query_initData h)"
  by (auto simp: readInitData_def truthy_def or_else_def opt_field_def Let_def
      split: option.splits if_splits)

lemma bootstrap_no_token:
  assumes "readInitData h = []"
  shows "bootstrap h net p =
     (case loadConfig (config_reply net) (started h p) of
        (Threw msg, q) \<Rightarrow> (Threw msg, q) | (Returned, q) \<Rightarrow> (Returned, showInitError q))"
proof -
  have "st_initData (snd (loadConfig (config_reply net) (started h p))) = []"
    using assms by (simp add: loadConfig_initData started_def)
  then show ?thesis
    by (cases "loadConfig (config_reply net) (started h p)")
       (simp add: bootstrap_def started_def Let_def split: completion.splits)
qed

lemma demo_token: "readInitData demo_host \<noteq> []"
  by (simp add: readInitData_def demo_host_def truthy_def or_else_def Let_def)

lemma demo_config_responds: "responds (config_reply demo_network)"
  by (simp add: responds_def demo_network_def)

subsection \<open>Rounding to a double and printing with two decimals\<close>

lemma round_half_even_error: "\<bar>of_int (round_half_even q) - q\<bar> \<le> 1 / 2"
proof -
  have "of_int \<lfloor>q\<rfloor> \<le> q" "q < of_int \<lfloor>q\<rfloor> + 1" by linarith+
  then show ?thesis
    by (auto simp: round_half_even_def Let_def)
qed

lemma pow2_powi: "pow2 e = 2 powi e"
  by (simp add: pow2_def power_int_def field_simps)

lemma pow2_pos: "0 < pow2 e"
  by (simp add: pow2_def)

lemma pow2_mono: "a \<le> b \<Longrightarrow> pow2 a \<le> pow2 b"
  unfolding pow2_powi by (rule power_int_increasing) simp_all

lemma pow2_strict_mono: "a < b \<Longrightarrow> pow2 a < pow2 b"
  unfolding pow2_powi by (rule power_int_strict_increasing) simp_all

lemma pow2_nat: "pow2 (int n) = 2 ^ n"
  by (simp add: pow2_powi)

lemma pow2_neg: "pow2 (- int n) = 1 / 2 ^ n"
  by (simp add: pow2_powi power_int_minus_divide)

lemma rat_power_le: "2 ^ k \<le> n \<Longrightarrow> (2::rat) ^ k \<le> of_nat n"
proof -
  assume "2 ^ k \<le> n"
  then have "(of_nat (2 ^ k) :: rat) \<le> of_nat n" by (rule of_nat_mono)
  then show ?thesis by simp
qed

lemma rat_less_power: "n < 2 ^ k \<Longrightarrow> (of_nat n :: rat) + 1 \<le> 2 ^ k"
proof -
  assume "n < 2 ^ k"
  then have "Suc n \<le> 2 ^ k" by simp
  then have "(of_nat (Suc n) :: rat) \<le> of_nat (2 ^ k)" by (rule of_nat_mono)
  then show ?thesis by simp
qed

lemma floorlog_nat_bounds:
  assumes "0 < n"
  shows "2 ^ (floorlog 2 n - 1) \<le> n" and "n < 2 ^ floorlog 2 n" and "0 < floorlog 2 n"
proof -
  show "2 ^ (floorlog 2 n - 1) \<le> n" "n < 2 ^ floorlog 2 n"
    using floorlog_bounds [where b = 2 and x = n] assms by simp_all
  have "floorlog 2 n \<noteq> 0" using assms by (simp add: floorlog_eq_zero_iff)
  then show "0 < floorlog 2 n" by simp
qed

text \<open>The exponent is the right one: a positive number lies in the binade of its exponent.\<close>

lemma binade_bounds:
  assumes "0 < a"
  shows "pow2 (binade a) \<le> a \<and> a < pow2 (binade a + 1)"
proof (cases "1 \<le> a")
  case True
  define n where "n = nat \<lfloor>a\<rfloor>"
  have n: "0 < n" using True by (simp add: n_def)
  have "of_int \<lfloor>a\<rfloor> \<le> a" "a < of_int \<lfloor>a\<rfloor> + 1" by linarith+
  moreover have "(of_nat n :: rat) = of_int \<lfloor>a\<rfloor>" using True by (simp add: n_def)
  ultimately have na: "of_nat n \<le> a" "a < of_nat n + 1" by simp_all
  define k where "k = floorlog 2 n - 1"
  have f: "2 ^ k \<le> n" "n < 2 ^ Suc k"
    using floorlog_nat_bounds [OF n] by (simp_all add: k_def)
  have b: "binade a = int k"
    using True floorlog_nat_bounds(3) [OF n] by (simp add: binade_def n_def k_def)
  have "(2::rat) ^ k \<le> a"
    using rat_power_le [OF f(1)] na(1) by (rule order_trans)
  moreover have "a < 2 ^ Suc k"
    using na(2) rat_less_power [OF f(2)] by (rule less_le_trans)
  moreover have "int k + 1 = int (Suc k)" by simp
  ultimately show ?thesis unfolding b by (simp only: pow2_nat)
next
  case False
  define y where "y = 1 / a"
  have y1: "1 < y" using False assms by (simp add: y_def field_simps)
  define n where "n = nat \<lfloor>y\<rfloor>"
  have n: "0 < n" using y1 by (simp add: n_def)
  have "of_int \<lfloor>y\<rfloor> \<le> y" "y < of_int \<lfloor>y\<rfloor> + 1" by linarith+
  moreover have "(of_nat n :: rat) = of_int \<lfloor>y\<rfloor>" using y1 by (simp add: n_def)
  ultimately have ny: "of_nat n \<le> y" "y < of_nat n + 1" by simp_all
  define k where "k = floorlog 2 n - 1"
  have f: "2 ^ k \<le> n" "n < 2 ^ Suc k"
    using floorlog_nat_bounds [OF n] by (simp_all add: k_def)
  have "(2::rat) ^ k \<le> y"
    using rat_power_le [OF f(1)] ny(1) by (rule order_trans)
  then have up: "a \<le> 1 / 2 ^ k" using assms by (simp add: y_def field_simps)
  have "y < 2 ^ Suc k"
    using ny(2) rat_less_power [OF f(2)] by (rule less_le_trans)
  then have lo: "1 / 2 ^ Suc k < a" using assms by (simp add: y_def field_simps)
  have kk: "int (floorlog 2 (nat \<lfloor>1 / a\<rfloor>)) - 1 = int k"
    using floorlog_nat_bounds(3) [OF n] by (simp add: k_def n_def y_def)
  show ?thesis
  proof (cases "a = pow2 (- int k)")
    case True
    then have b: "binade a = - int k"
      using False kk by (simp add: binade_def Let_def)
    have "pow2 (- int k) < pow2 (- int k + 1)" by (rule pow2_strict_mono) simp
    with True b show ?thesis by simp
  next
    case ne: False
    then have b: "binade a = - int (Suc k)"
      using False kk by (simp add: binade_def Let_def)
    have "a < pow2 (- int k)" using up ne by (simp add: pow2_neg)
    moreover have "pow2 (- int (Suc k)) < a" unfolding pow2_neg using lo .
    moreover have "- int (Suc k) + 1 = - int k" by simp
    ultimately show ?thesis unfolding b by simp
  qed
qed

lemma floorlog_between: "2 ^ k \<le> x \<Longrightarrow> x < 2 ^ Suc k \<Longrightarrow> floorlog 2 x = Suc k"
  using floorlog_leI [of x 2 "Suc k"] floorlog_ge_SucI [of 2 k x] by simp

lemma binade_upper:
  assumes "0 < a" and "a < 2 ^ 46"
  shows "binade a \<le> 45"
proof (cases "1 \<le> a")
  case True
  have "\<lfloor>a\<rfloor> < (2::int) ^ 46" using assms(2) by (simp add: floor_less_iff)
  then have "nat \<lfloor>a\<rfloor> < 2 ^ 46" using assms(1) by (simp add: nat_less_iff)
  then have "floorlog 2 (nat \<lfloor>a\<rfloor>) \<le> 46" by (intro floorlog_leI) simp_all
  with True show ?thesis by (simp add: binade_def)
next
  case False
  then have "1 < 1 / a" using assms(1) by (simp add: field_simps)
  then have "(1::int) \<le> \<lfloor>1 / a\<rfloor>" by linarith
  then have "1 \<le> nat \<lfloor>1 / a\<rfloor>" by linarith
  then have "(2::nat) ^ 0 \<le> nat \<lfloor>1 / a\<rfloor>" by (simp only: power_0)
  then have "Suc 0 \<le> floorlog 2 (nat \<lfloor>1 / a\<rfloor>)" by (intro floorlog_ge_SucI) simp_all
  with False show ?thesis by (simp add: binade_def Let_def)
qed

text \<open>Below \<open>2\<^sup>4\<^sup>6\<close> the doubles are at most \<open>1/128\<close> apart, so rounding moves a number by at most \<open>1/256\<close>.\<close>

lemma fl64_error:
  assumes "0 < x" and "x < 2 ^ 46"
  shows "\<bar>fl64 x - x\<bar> \<le> 1 / 256"
proof -
  define u where "u = pow2 (max (binade x) (- 1022) - 52)"
  define n where "n = round_half_even (x / u)"
  have upos: "0 < u" by (simp add: u_def pow2_pos)
  have "max (binade x) (- 1022) - 52 \<le> - 7"
    using binade_upper [OF assms] by simp
  then have "u \<le> pow2 (- 7)" unfolding u_def by (rule pow2_mono)
  then have ule: "u \<le> 1 / 128" by (simp add: pow2_def)
  have fl: "fl64 x = of_int n * u"
    using assms(1) by (simp add: fl64_def Let_def u_def n_def)
  have "\<bar>of_int n - x / u\<bar> \<le> 1 / 2" unfolding n_def by (rule round_half_even_error)
  then have "\<bar>of_int n - x / u\<bar> * u \<le> 1 / 2 * u"
    using upos by (intro mult_right_mono) simp_all
  moreover have "\<bar>of_int n - x / u\<bar> * u = \<bar>of_int n * u - x\<bar>"
  proof -
    have "\<bar>of_int n - x / u\<bar> * u = \<bar>(of_int n - x / u) * u\<bar>"
      using upos by (simp add: abs_mult)
    also have "(of_int n - x / u) * u = of_int n * u - x"
      using upos by (simp add: field_simps)
    finally show ?thesis .
  qed
  ultimately have "\<bar>fl64 x - x\<bar> \<le> 1 / 2 * u" using fl by simp
  with ule show ?thesis by simp
qed

lemma nearest_cent:
  assumes "n < 100 * 2 ^ 46"
  shows "\<lfloor>\<bar>js_div (of_nat n) 100\<bar> * 10 ^ 2 + 1 / 2\<rfloor> = int n"
    and "\<not> js_div (of_nat n) 100 < 0"
    and "\<not> 10 ^ 21 \<le> \<bar>js_div (of_nat n) 100\<bar>"
proof -
  define y where "y = js_div (of_nat n) 100"
  define x :: rat where "x = of_nat n / 100"
  have nb: "(of_nat n :: rat) < 7036874417766400"
    using assms by simp
  have xb: "x < 2 ^ 46" using nb by (simp add: x_def)
  have yx: "y = fl64 x" by (simp add: y_def x_def js_div_def)
  have err: "\<bar>y - x\<bar> \<le> 1 / 256"
  proof (cases "n = 0")
    case True
    then show ?thesis by (simp add: yx x_def fl64_def)
  next
    case False
    then have "0 < x" by (simp add: x_def)
    then show ?thesis unfolding yx using xb by (rule fl64_error)
  qed
  have ypos: "0 \<le> y"
  proof (cases "n = 0")
    case True
    then show ?thesis by (simp add: yx x_def fl64_def)
  next
    case False
    then have "1 \<le> n" by simp
    then have "(1::rat) \<le> of_nat n" using of_nat_mono [of 1 n, where 'a = rat] by simp
    then have "1 / 100 \<le> x" by (simp add: x_def)
    with err show ?thesis by linarith
  qed
  have x100: "x * 100 = of_nat n" by (simp add: x_def)
  from err have "x - 1 / 256 \<le> y" "y \<le> x + 1 / 256" by linarith+
  then have "x * 100 - 100 / 256 \<le> y * 100" "y * 100 \<le> x * 100 + 100 / 256" by linarith+
  then have b: "of_int (int n) \<le> y * 100 + 1 / 2" "y * 100 + 1 / 2 < of_int (int n) + 1"
    unfolding x100 by simp_all
  have "\<lfloor>y * 100 + 1 / 2\<rfloor> = int n"
    using b by (rule floor_unique)
  with ypos show "\<lfloor>\<bar>js_div (of_nat n) 100\<bar> * 10 ^ 2 + 1 / 2\<rfloor> = int n"
    by (simp add: y_def)
  from ypos show "\<not> js_div (of_nat n) 100 < 0" by (simp add: y_def)
  have "y \<le> x + 1 / 256" using err by linarith
  with xb have "y < 70368744177665" by simp
  with ypos show "\<not> 10 ^ 21 \<le> \<bar>js_div (of_nat n) 100\<bar>" by (simp add: y_def)
qed

lemma digit_0: "digit 0 = CHR ''0''"
  by (simp add: digit_def)

lemma dec_nat_small: "n < 10 \<Longrightarrow> dec_nat n = [digit n]"
  by (simp add: dec_nat.simps)

lemma dec_nat_two: "10 \<le> n \<Longrightarrow> n < 100 \<Longrightarrow> dec_nat n = [digit (n div 10), digit (n mod 10)]"
  by (subst dec_nat.simps) (simp add: dec_nat_small)

lemma dec_nat_large:
  "100 \<le> n \<Longrightarrow> dec_nat n = dec_nat (n div 100) @ [digit (n div 10 mod 10), digit (n mod 10)]"
proof -
  assume n: "100 \<le> n"
  then have "dec_nat n = dec_nat (n div 10) @ [digit (n mod 10)]"
    by (subst dec_nat.simps) simp
  moreover have "dec_nat (n div 10) = dec_nat (n div 10 div 10) @ [digit (n div 10 mod 10)]"
    using n by (subst dec_nat.simps) simp
  moreover have "n div 10 div 10 = n div 100" by (simp add: div_mult2_eq)
  ultimately show ?thesis by simp
qed

lemma dec_nat_nonempty: "dec_nat n \<noteq> []"
  by (subst dec_nat.simps) simp

lemma point_two_digits:
  "(let m = dec_nat n;
        m = (if length m \<le> 2 then replicate (2 + 1 - length m) (CHR ''0'') @ m else m);
        k = length m
    in take (k - 2) m @ ''.'' @ drop (k - 2) m) = cents_text n"
proof -
  consider "n < 10" | "10 \<le> n" "n < 100" | "100 \<le> n" by linarith
  then show ?thesis
  proof cases
    case 1
    then show ?thesis
      by (simp add: dec_nat_small cents_text_def digit_0 numeral_2_eq_2)
  next
    case 2
    then show ?thesis
      by (simp add: dec_nat_two dec_nat_small cents_text_def digit_0)
  next
    case 3
    have "dec_nat (n div 100) \<noteq> []" by (rule dec_nat_nonempty)
    then have "0 < length (dec_nat (n div 100))" by simp
    with 3 show ?thesis
      by (simp add: dec_nat_large cents_text_def Let_def)
  qed
qed

text \<open>The quotient just above \<open>2\<^sup>4\<^sup>6\<close>, where the doubles are \<open>1/64\<close> apart.\<close>

lemma js_div_above_2_46: "js_div 7036874417766401 100 = 4503599627370497 / 64"
proof -
  have "\<lfloor>7036874417766401 / 100 :: rat\<rfloor> = 70368744177664"
    by (rule floor_unique) simp_all
  then have f: "nat \<lfloor>7036874417766401 / 100 :: rat\<rfloor> = 70368744177664" by simp
  have fl: "floorlog 2 (nat \<lfloor>7036874417766401 / 100 :: rat\<rfloor>) = 47"
    unfolding f using floorlog_between [of 46 70368744177664] by simp
  have b: "binade (7036874417766401 / 100) = 46"
    unfolding binade_def fl by simp
  have "\<lfloor>112589990684262416 / 25 :: rat\<rfloor> = 4503599627370496"
    by (rule floor_unique) simp_all
  then have r: "round_half_even (112589990684262416 / 25) = 4503599627370497"
    by (simp add: round_half_even_def Let_def)
  have u: "pow2 (- 6) = 1 / 64" by (simp add: pow2_def)
  show ?thesis
    unfolding js_div_def fl64_def Let_def by (simp add: b u r)
qed

lemma js_div_100_100: "js_div 100 100 = 1"
proof -
  have fl: "floorlog 2 (Suc 0) = Suc 0"
    using floorlog_between [of 0 "Suc 0"] by simp
  have b: "binade 1 = 0" by (simp add: binade_def fl)
  have r: "round_half_even 4503599627370496 = 4503599627370496"
    by (simp add: round_half_even_def Let_def)
  have u: "pow2 (- 52) = 1 / 4503599627370496" by (simp add: pow2_def)
  show ?thesis by (simp add: js_div_def fl64_def Let_def b u r)
qed

subsection \<open>Numbers beyond the doubles\<close>

lemma round_half_even_of_int: "round_half_even (of_int z) = z"
  by (simp add: round_half_even_def Let_def)

lemma round_half_even_mono_int: "of_int z \<le> q \<Longrightarrow> z \<le> round_half_even q"
proof -
  assume "of_int z \<le> q"
  then have "z \<le> \<lfloor>q\<rfloor>" by (simp add: le_floor_iff)
  then show ?thesis by (simp add: round_half_even_def Let_def)
qed

lemma pow2_add: "pow2 (a + b) = pow2 a * pow2 b"
  unfolding pow2_powi by (rule power_int_add) simp

lemma fl64_minus: "fl64 (- x) = - fl64 x"
  by (simp add: fl64_def Let_def sgn_minus)

lemma fl64_pos_unfold:
  "0 < x \<Longrightarrow> fl64 x = of_int (round_half_even (x / pow2 (max (binade x) (- 1022) - 52)))
     * pow2 (max (binade x) (- 1022) - 52)"
  by (simp add: fl64_def Let_def)

lemma fl64_nonneg: "0 < x \<Longrightarrow> 0 \<le> fl64 x"
proof -
  assume x: "0 < x"
  define u where "u = pow2 (max (binade x) (- 1022) - 52)"
  have u: "0 < u" by (simp add: u_def pow2_pos)
  have "of_int 0 \<le> x / u" using x u by simp
  then have "0 \<le> round_half_even (x / u)" by (rule round_half_even_mono_int)
  then show ?thesis using u x by (simp add: fl64_pos_unfold u_def)
qed

text \<open>Rounding moves a number by at most half the unit of its binade.\<close>

lemma fl64_upper:
  assumes "0 < x"
  shows "fl64 x \<le> 2 * x + 1"
proof -
  define e where "e = max (binade x) (- 1022) - 52"
  define u where "u = pow2 e"
  define n where "n = round_half_even (x / u)"
  have upos: "0 < u" by (simp add: u_def pow2_pos)
  have fl: "fl64 x = of_int n * u"
    using assms by (simp add: fl64_pos_unfold u_def e_def n_def)
  have "\<bar>of_int n - x / u\<bar> \<le> 1 / 2" unfolding n_def by (rule round_half_even_error)
  then have "of_int n \<le> x / u + 1 / 2" by linarith
  then have "of_int n * u \<le> (x / u + 1 / 2) * u"
    using upos by (intro mult_right_mono) simp_all
  also have "\<dots> = x + u / 2" using upos by (simp add: field_simps)
  finally have a: "fl64 x \<le> x + u / 2" by (simp add: fl)
  have "u \<le> x + 1"
  proof (cases "- 1022 \<le> binade x")
    case True
    then have "e = binade x - 52" by (simp add: e_def)
    then have "u \<le> pow2 (binade x)" unfolding u_def by (intro pow2_mono) simp
    also have "\<dots> \<le> x" using binade_bounds [OF assms] by simp
    finally show ?thesis by simp
  next
    case False
    then have "e \<le> 0" by (simp add: e_def)
    then have "u \<le> pow2 0" unfolding u_def by (rule pow2_mono)
    then have "u \<le> 1" by (simp add: pow2_def)
    with assms show ?thesis by simp
  qed
  with a assms show ?thesis by linarith
qed

lemma fl64_abs_bound: "\<bar>fl64 x\<bar> \<le> 2 * \<bar>x\<bar> + 1"
proof -
  consider "x = 0" | "0 < x" | "x < 0" by linarith
  then show ?thesis
  proof cases
    case 1
    then show ?thesis by (simp add: fl64_def)
  next
    case 2
    then show ?thesis using fl64_upper [of x] fl64_nonneg [of x] by simp
  next
    case 3
    then have p: "0 < - x" by simp
    have "fl64 x = - fl64 (- x)" using fl64_minus [of "- x"] by simp
    then show ?thesis using fl64_upper [OF p] fl64_nonneg [OF p] 3 by simp
  qed
qed

text \<open>Natural numbers below \<open>2\<^sup>5\<^sup>3\<close> are doubles.\<close>

lemma fl64_nat_exact:
  assumes "n < 2 ^ 53"
  shows "fl64 (of_nat n) = of_nat n"
proof (cases "n = 0")
  case True
  then show ?thesis by (simp add: fl64_def)
next
  case False
  define a :: rat where "a = of_nat n"
  have a: "0 < a" "1 \<le> a" using False by (simp_all add: a_def)
  have "(of_nat n :: rat) < of_nat (2 ^ 53)" using assms by (simp only: of_nat_less_iff)
  then have a53: "a < pow2 53" by (simp add: a_def pow2_def)
  define b where "b = binade a"
  have bb: "pow2 b \<le> a" "a < pow2 (b + 1)"
    using binade_bounds [OF a(1)] by (simp_all add: b_def)
  have "\<not> 53 \<le> b"
  proof
    assume "53 \<le> b"
    then have "pow2 53 \<le> pow2 b" by (rule pow2_mono)
    with bb(1) a53 show False by simp
  qed
  then have b52: "b \<le> 52" by simp
  have "\<not> b + 1 \<le> 0"
  proof
    assume "b + 1 \<le> 0"
    then have "pow2 (b + 1) \<le> pow2 0" by (rule pow2_mono)
    then have "pow2 (b + 1) \<le> 1" by (simp add: pow2_def)
    with bb(2) a(2) show False by simp
  qed
  then have b0: "0 \<le> b" by simp
  define k where "k = nat (52 - b)"
  have e: "max b (- 1022) - 52 = - int k" using b0 b52 by (simp add: k_def)
  have u: "pow2 (max b (- 1022) - 52) = 1 / 2 ^ k" unfolding e by (rule pow2_neg)
  have "a / (1 / 2 ^ k) = of_int (int (n * 2 ^ k))" by (simp add: a_def)
  then have r: "round_half_even (a / (1 / 2 ^ k)) = int (n * 2 ^ k)"
    by (simp only: round_half_even_of_int)
  have "fl64 a = of_int (int (n * 2 ^ k)) * (1 / 2 ^ k)"
    using fl64_pos_unfold [OF a(1)] unfolding b_def [symmetric] u r .
  then show ?thesis by (simp add: a_def)
qed

lemma to_double_nat: "n < 2 ^ 53 \<Longrightarrow> to_double (of_nat n) = Fin (of_nat n)"
proof -
  assume n: "n < 2 ^ 53"
  have "(of_nat n :: rat) < of_nat (2 ^ 53)" using n by (simp only: of_nat_less_iff)
  then have "(of_nat n :: rat) < 2 ^ 53" by simp
  moreover have "(2::rat) ^ 53 \<le> 2 ^ 1024" by (rule power_increasing) simp_all
  ultimately have "\<not> pow2 1024 \<le> \<bar>of_nat n :: rat\<bar>" by (simp add: pow2_def)
  then show ?thesis by (simp add: to_double_def fl64_nat_exact [OF n] Let_def)
qed

text \<open>A hundredth of a finite double is finite.\<close>

lemma to_double_div100:
  assumes "to_double k = Fin d"
  shows "to_double (d / 100) = Fin (js_div d 100)"
proof -
  have d: "\<bar>d\<bar> < pow2 1024"
    using assms by (auto simp: to_double_def Let_def split: if_splits)
  have p: "2 \<le> pow2 1024"
  proof -
    have "pow2 1 \<le> pow2 1024" by (rule pow2_mono) simp
    then show ?thesis by (simp add: pow2_def)
  qed
  have "\<bar>fl64 (d / 100)\<bar> \<le> 2 * \<bar>d / 100\<bar> + 1" by (rule fl64_abs_bound)
  also have "\<dots> = \<bar>d\<bar> / 50 + 1" by simp
  also have "\<dots> < pow2 1024" using d p by simp
  finally show ?thesis by (simp add: to_double_def js_div_def Let_def)
qed

text \<open>From \<open>2\<^sup>1\<^sup>0\<^sup>2\<^sup>4\<close> on a numeral parses to \<open>Infinity\<close>.\<close>

lemma to_double_overflow:
  assumes "pow2 1024 \<le> x"
  shows "to_double x = PosInf"
proof -
  have x: "0 < x" using assms pow2_pos [of 1024] by simp
  define b where "b = binade x"
  have bb: "pow2 b \<le> x" "x < pow2 (b + 1)"
    using binade_bounds [OF x] by (simp_all add: b_def)
  have "\<not> b + 1 \<le> 1024"
  proof
    assume "b + 1 \<le> 1024"
    then have "pow2 (b + 1) \<le> pow2 1024" by (rule pow2_mono)
    with bb(2) assms show False by simp
  qed
  then have b: "1024 \<le> b" by simp
  define u where "u = pow2 (b - 52)"
  have upos: "0 < u" by (simp add: u_def pow2_pos)
  have e: "max b (- 1022) - 52 = b - 52" using b by simp
  have pu: "pow2 52 * u = pow2 b"
    using pow2_add [of 52 "b - 52"] by (simp add: u_def)
  have "pow2 52 * u \<le> x" using bb(1) pu by simp
  then have "pow2 52 \<le> x / u" using upos by (simp add: field_simps)
  moreover have "pow2 52 = of_int (2 ^ 52)" by (simp add: pow2_def)
  ultimately have "of_int (2 ^ 52) \<le> x / u" by simp
  then have "2 ^ 52 \<le> round_half_even (x / u)" by (rule round_half_even_mono_int)
  then have "(of_int (2 ^ 52) :: rat) \<le> of_int (round_half_even (x / u))"
    by (simp only: of_int_le_iff)
  then have "of_int (2 ^ 52) * u \<le> of_int (round_half_even (x / u)) * u"
    using upos by (intro mult_right_mono) simp_all
  moreover have "fl64 x = of_int (round_half_even (x / u)) * u"
    using fl64_pos_unfold [OF x] unfolding b_def [symmetric] e u_def .
  moreover have "(of_int (2 ^ 52) :: rat) * u = pow2 b" using pu by (simp add: pow2_def)
  ultimately have "pow2 b \<le> fl64 x" by simp
  moreover have "pow2 1024 \<le> pow2 b" using b by (rule pow2_mono)
  ultimately have big: "pow2 1024 \<le> fl64 x" by simp
  then have "0 < fl64 x" using pow2_pos [of 1024] by simp
  with big show ?thesis by (simp add: to_double_def Let_def)
qed

subsection \<open>The bootstrap pass with a token\<close>

lemma bootstrap_with_token:
  assumes "readInitData h \<noteq> []" and "responds (config_reply net)"
  shows "bootstrap h net p =
     (case loadSubscription h (subscription_reply net)
             (snd (loadConfig (config_reply net) (started h p))) of
        (Threw msg, q) \<Rightarrow> (Returned, showLoadError msg q)
      | (Returned, q) \<Rightarrow> (Returned, loadPayments (methods_reply net) q))"
proof -
  obtain c q where cq: "loadConfig (config_reply net) (started h p) = (c, q)"
    by (cases "loadConfig (config_reply net) (started h p)")
  have c: "c = Returned"
    using loadConfig_responds [OF assms(2), of "started h p"] cq by simp
  have "st_initData q \<noteq> []"
    using loadConfig_initData [of "config_reply net" "started h p"] cq assms(1)
    by (simp add: started_def)
  then show ?thesis
    using cq c by (simp add: bootstrap_def started_def Let_def)
qed

lemma loadPayments_status:
  "subscriptionTitle (loadPayments r p) = subscriptionTitle p"
  "subscriptionMeta (loadPayments r p) = subscriptionMeta p"
  "statusBadge_text (loadPayments r p) = statusBadge_text p"
  "statusBadge_classes (loadPayments r p) = statusBadge_classes p"
  by (simp_all add: loadPayments_def renderPayments_def Let_def split: sum.splits)

lemma render_status:
  "statusBadge_text (renderActions d p) = statusBadge_text p"
  "statusBadge_text (renderDevices d p) = statusBadge_text p"
  "statusBadge_text (renderTransactions h d p) = statusBadge_text p"
  "statusBadge_text (renderPlatformGuide h c d p) = statusBadge_text p"
proof -
  show "statusBadge_text (renderActions d p) = statusBadge_text p"
    by (simp add: renderActions_def Let_def)
  show "statusBadge_text (renderDevices d p) = statusBadge_text p"
    by (simp add: renderDevices_def Let_def)
  show "statusBadge_text (renderTransactions h d p) = statusBadge_text p"
    by (simp add: renderTransactions_def Let_def)
  show "statusBadge_text (renderPlatformGuide h c d p) = statusBadge_text p"
    by (simp add: renderPlatformGuide_def Let_def split: option.splits list.splits)
qed

lemma loadSubscription_status:
  assumes "fetchJson r = Inr d"
  shows "statusBadge_text (snd (loadSubscription h r p))
         = or_else (opt_field (sub_user d) subscription_status) ''Unknown''"
proof -
  have "statusBadge_text (renderStatusCard h d q)
      = or_else (opt_field (sub_user d) subscription_status) ''Unknown''" for q
    by (simp add: renderStatusCard_def Let_def)
  then show ?thesis
    using assms by (simp add: loadSubscription_def Let_def render_status)
qed

subsection \<open>The pay button without edits\<close>

lemma untouched_fields:
  "untouched h tok m s \<Longrightarrow>
     widget_method (widget s) = m \<and> amount_field (widget s) = amount_field (payment_widget m)"
proof (induction rule: untouched.induct)
  case Fresh
  show ?case by (simp add: new_session_def payment_widget_def)
next
  case (Clicked s)
  then show ?case by (simp add: click_def)
next
  case (Settled s r)
  then show ?case by (cases "try_result h r") (simp_all add: settle_def)
qed

section \<open>The claims\<close>




text \<open>
  C2 (in the form that holds of the code). For a payment method that requires an amount,
  a click made while the amount field still holds what it was rendered with (the user has
  neither typed into it nor cleared it, after any number of earlier attempts) sends as
  \<open>amountRubles\<close>: the method's minimum divided by 100 when the minimum is a finite number
  other than zero; 1 (the equivalent of 100 minor units) when the minimum is absent or
  zero; and 0 when the minimum is so large that it parses to an infinity, because the
  amount field then starts empty. Once the user has edited the field, a click sends the
  number the field holds, and 0 when the field is empty.
\<close>

theorem default_amount_sent:
  assumes "untouched h tok m s" and "requires_amount m"
  shows "req_amountRubles (last (outbox (click tok s)))
      = Some (case min_amount_kopeks m of
                None \<Rightarrow> Fin 1
              | Some k \<Rightarrow>
                  (case to_double k of
                     Fin d \<Rightarrow> if d = 0 then Fin 1 else Fin (js_div d 100)
                   | PosInf \<Rightarrow> Fin 0
                   | NegInf \<Rightarrow> Fin 0))
    \<and> req_amountRubles (last (outbox (click tok (enter_amount v s))))
        = Some (case v of None \<Rightarrow> Fin 0 | Some x \<Rightarrow> x)
    \<and> js_div 100 100 = 1"
proof -
  have f: "widget_method (widget s) = m" "amount_field (widget s) = Some (amount_input_of m)"
    using untouched_fields [OF assms(1)] assms(2) by (simp_all add: payment_widget_def)
  have v: "input_value (amount_input_of m)
      = (case min_amount_kopeks m of
           None \<Rightarrow> Some (Fin 1)
         | Some k \<Rightarrow>
             (case to_double k of
                Fin d \<Rightarrow> if d = 0 then Some (Fin 1) else Some (Fin (js_div d 100))
              | PosInf \<Rightarrow> None
              | NegInf \<Rightarrow> None))"
  proof (cases "min_amount_kopeks m")
    case None
    then show ?thesis by (simp add: amount_input_of_def num_truthy_def field_number_def Let_def)
  next
    case (Some k)
    show ?thesis
    proof (cases "to_double k")
      case (Fin d)
      then show ?thesis
        using Some to_double_div100 [OF Fin]
        by (simp add: amount_input_of_def num_truthy_def field_number_def div100_def Let_def)
    next
      case PosInf
      then show ?thesis
        using Some
        by (simp add: amount_input_of_def num_truthy_def field_number_def div100_def Let_def)
    next
      case NegInf
      then show ?thesis
        using Some
        by (simp add: amount_input_of_def num_truthy_def field_number_def div100_def Let_def)
    qed
  qed
  have first: "req_amountRubles (last (outbox (click tok s)))
      = Some (case input_value (amount_input_of m) of None \<Rightarrow> Fin 0 | Some x \<Rightarrow> x)"
    using f assms(2) by (simp add: click_def payload_of_def Let_def)
  have second: "req_amountRubles (last (outbox (click tok (enter_amount v s))))
        = Some (case v of None \<Rightarrow> Fin 0 | Some x \<Rightarrow> x)"
    using f assms(2) by (simp add: click_def payload_of_def enter_amount_def Let_def)
  show ?thesis
    unfolding first v using second js_div_100_100
    by (simp split: option.splits jsnum.splits)
qed

theorem default_amount_sent_witness:
  "req_amountRubles (last (outbox (click ''t'' (new_session demo_method)))) = Some (Fin 50)
   \<and> req_amountRubles
       (last (outbox (click ''t'' (new_session (demo_method\<lparr>min_amount_kopeks := Some (10 ^ 309)\<rparr>)))))
       = Some (Fin 0)"
proof -
  have r: "requires_amount demo_method" by (simp add: demo_method_def)
  have k: "to_double 5000 = Fin 5000" using to_double_nat [of 5000] by simp
  have q: "js_div 5000 100 = 50" using fl64_nat_exact [of 50] by (simp add: js_div_def)
  have a: "req_amountRubles (last (outbox (click ''t'' (new_session demo_method)))) = Some (Fin 50)"
    using default_amount_sent [OF untouched.Fresh [of demo_host "''t''" demo_method] r] k q
    by (simp add: demo_method_def)
  let ?m = "demo_method\<lparr>min_amount_kopeks := Some (10 ^ 309)\<rparr>"
  have r': "requires_amount ?m" by (simp add: demo_method_def)
  have "pow2 1024 \<le> 10 ^ 309" by (simp add: pow2_def)
  then have i: "to_double (10 ^ 309) = PosInf" by (rule to_double_overflow)
  have b: "req_amountRubles (last (outbox (click ''t'' (new_session ?m)))) = Some (Fin 0)"
    using default_amount_sent [OF untouched.Fresh [of demo_host "''t''" ?m] r'] i
    by simp
  from a b show ?thesis by simp
qed

text \<open>
  C2 in the wording of the specification fails for a method whose minimum is 0: the field
  starts at 1, so 1 is sent and not the minimum.
\<close>

theorem zero_minimum_counterexample:
  "req_amountRubles
     (last (outbox (click ''t'' (new_session (demo_method\<lparr>min_amount_kopeks := Some 0\<rparr>)))))
     = Some (Fin 1)"
  by (simp add: click_def new_session_def payload_of_def payment_widget_def amount_input_of_def
      num_truthy_def field_number_def to_double_def fl64_def Let_def demo_method_def pow2_def)

text \<open>
  C3 (in the form that holds of the code). In a bootstrap pass with a token whose configuration fetch brings a
  response, an error of the account load (the fetch rejects, the status is not 2xx, or the
  body does not parse) is caught: the pass ends normally, the status area shows the
  generic message ``Failed to load data ...'' and the badge ``Error'' with the danger
  class, and everything else on the page is as the configuration load left it. A
  configuration document that does not parse is no error of the pass: \<open>loadConfig\<close>
  returns normally with the empty configuration.
\<close>

theorem account_load_failure_shown:
  assumes token: "readInitData h \<noteq> []"
    and config: "responds (config_reply net)"
    and account: "fetchJson (subscription_reply net) = Inl msg"
  shows "bootstrap h net p =
      (Returned,
       showLoadError msg
         ((snd (loadConfig (config_reply net) (started h p)))
            \<lparr>fetches := fetches p @ [''app-config.json'', ''/miniapp/subscription'']\<rparr>))
    \<and> subscriptionMeta (snd (bootstrap h net p))
        = ''Failed to load data. Pull to refresh or try again later.''
    \<and> statusBadge_text (snd (bootstrap h net p)) = ''Error''
    \<and> ''badge--danger'' \<in> set (statusBadge_classes (snd (bootstrap h net p)))
    \<and> fst (loadConfig (Response ok status text (Inl err)) p) = Returned
    \<and> st_config (snd (loadConfig (Response ok status text (Inl err)) p)) = Some empty_config"
proof -
  define q where "q = snd (loadConfig (config_reply net) (started h p))"
  have fq: "fetches q = fetches p @ [''app-config.json'']"
    unfolding q_def using loadConfig_fetches [of "config_reply net" "started h p"]
    by (simp add: started_def)
  have ls: "loadSubscription h (subscription_reply net) q
      = (Threw msg, q\<lparr>fetches := fetches p @ [''app-config.json'', ''/miniapp/subscription'']\<rparr>)"
    using account fq by (simp add: loadSubscription_def Let_def)
  have b: "bootstrap h net p =
      (Returned, showLoadError msg (q\<lparr>fetches := fetches p @ [''app-config.json'', ''/miniapp/subscription'']\<rparr>))"
    using bootstrap_with_token [OF token config, of p] ls by (simp add: q_def)
  have cfg: "fst (loadConfig (Response ok status text (Inl err)) p) = Returned
    \<and> st_config (snd (loadConfig (Response ok status text (Inl err)) p)) = Some empty_config"
    by (simp add: loadConfig_def safeJsonParse_def Let_def)
  show ?thesis
    using b cfg by (simp add: showLoadError_def set_add_def q_def)
qed

theorem account_load_failure_shown_witness:
  "statusBadge_text (snd (bootstrap demo_host
      (demo_network\<lparr>subscription_reply := Response False 500 ''Internal Server Error'' (Inl ''Unexpected token I'')\<rparr>)
      blank_page)) = ''Error''"
proof -
  let ?net = "demo_network\<lparr>subscription_reply :=
      Response False 500 ''Internal Server Error'' (Inl ''Unexpected token I'')\<rparr>"
  have c: "responds (config_reply ?net)" by (simp add: responds_def demo_network_def)
  have a: "fetchJson (subscription_reply ?net) = Inl ''Internal Server Error''"
    by (simp add: fetchJson_def)
  show ?thesis
    using account_load_failure_shown [OF demo_token c a, of blank_page True 200 "[]" "[]"]
    by blast
qed

text \<open>
  C3 in the wording of the specification fails for the configuration load: with a configuration body that does not
  parse, the pass goes on with the empty configuration, loads the account and shows its
  status; no error appears in the status area.
\<close>

theorem config_parse_error_counterexample:
  "fst (bootstrap demo_host
      (demo_network\<lparr>config_reply := Response True 200 ''<html>'' (Inl ''Unexpected token <'')\<rparr>)
      blank_page) = Returned
   \<and> statusBadge_text (snd (bootstrap demo_host
      (demo_network\<lparr>config_reply := Response True 200 ''<html>'' (Inl ''Unexpected token <'')\<rparr>)
      blank_page)) = ''active''"
proof -
  let ?net = "demo_network\<lparr>config_reply :=
      Response True 200 ''<html>'' (Inl ''Unexpected token <'')\<rparr>"
  have c: "responds (config_reply ?net)" by (simp add: responds_def)
  have a: "fetchJson (subscription_reply ?net) = Inr demo_subscription"
    by (simp add: fetchJson_def demo_network_def)
  have r: "fst (loadSubscription demo_host (subscription_reply ?net) q) = Returned" for q
    using a by (rule loadSubscription_returns)
  have s: "statusBadge_text (snd (loadSubscription demo_host (subscription_reply ?net) q)) = ''active''"
    for q
    using loadSubscription_status [OF a, of demo_host q]
    by (simp add: demo_subscription_def opt_field_def or_else_def)
  define q where "q = snd (loadConfig (config_reply ?net) (started demo_host blank_page))"
  obtain c2 q2 where l: "loadSubscription demo_host (subscription_reply ?net) q = (c2, q2)"
    by (cases "loadSubscription demo_host (subscription_reply ?net) q")
  have c2: "c2 = Returned" using r [of q] l by simp
  have q2: "statusBadge_text q2 = ''active''" using s [of q] l by simp
  have "bootstrap demo_host ?net blank_page = (Returned, loadPayments (methods_reply ?net) q2)"
    using bootstrap_with_token [OF demo_token c, of blank_page] l c2 by (simp add: q_def)
  then show ?thesis
    using q2 by (simp add: loadPayments_status)
qed



text \<open>
  C5 (in the form that holds of the code). In a bootstrap pass without a token (the host's init data and the
  \<open>initData\<close> query parameter both absent or empty) the only network call is the
  configuration load. When that fetch brings a response, whatever its status and body, the
  pass ends normally in the unauthenticated state: the action, payment, device, transaction
  and platform sections are hidden and the status area carries the one explanatory message
  and the badge ``Not authorized''.
\<close>

theorem no_token_placeholder:
  assumes host_token: "\<not> truthy (opt_field (tg h) tg_initData)"
    and query_token: "\<not> truthy (query_initData h)"
  shows "fetches (snd (bootstrap h net p)) = fetches p @ [''app-config.json'']
    \<and> (responds (config_reply net) \<longrightarrow>
         bootstrap h net p
           = (Returned, showInitError (snd (loadConfig (config_reply net) (started h p))))
         \<and> actionsCard_hidden (snd (bootstrap h net p))
         \<and> paymentsCard_hidden (snd (bootstrap h net p))
         \<and> devicesCard_hidden (snd (bootstrap h net p))
         \<and> transactionsCard_hidden (snd (bootstrap h net p))
         \<and> platformCard_hidden (snd (bootstrap h net p))
         \<and> subscriptionMeta (snd (bootstrap h net p)) = init_error_text
         \<and> statusBadge_text (snd (bootstrap h net p)) = ''Not authorized'')"
proof -
  have empty: "readInitData h = []"
    using host_token query_token by (simp add: readInitData_empty)
  obtain c q where cq: "loadConfig (config_reply net) (started h p) = (c, q)"
    by (cases "loadConfig (config_reply net) (started h p)")
  have fq: "fetches q = fetches p @ [''app-config.json'']"
    using loadConfig_fetches [of "config_reply net" "started h p"] cq by (simp add: started_def)
  have b: "bootstrap h net p =
      (case c of Threw msg \<Rightarrow> (Threw msg, q) | Returned \<Rightarrow> (Returned, showInitError q))"
    using bootstrap_no_token [OF empty, of net p] cq by (simp split: completion.splits)
  have first: "fetches (snd (bootstrap h net p)) = fetches p @ [''app-config.json'']"
    using b fq by (cases c) (simp_all add: showInitError_def)
  have second: "responds (config_reply net) \<Longrightarrow> bootstrap h net p = (Returned, showInitError q)"
    using b loadConfig_responds [of "config_reply net" "started h p"] cq by simp
  show ?thesis
    using first second cq by (auto simp: showInitError_def init_error_text_def)
qed

theorem no_token_placeholder_witness:
  "fetches (snd (bootstrap anonymous_host demo_network blank_page)) = [''app-config.json'']
   \<and> paymentsCard_hidden (snd (bootstrap anonymous_host demo_network blank_page))
   \<and> statusBadge_text (snd (bootstrap anonymous_host demo_network blank_page)) = ''Not authorized''"
proof -
  have a: "\<not> truthy (opt_field (tg anonymous_host) tg_initData)"
    by (simp add: anonymous_host_def opt_field_def truthy_def)
  have b: "\<not> truthy (query_initData anonymous_host)"
    by (simp add: anonymous_host_def demo_host_def truthy_def)
  note t = no_token_placeholder [OF a b, of demo_network blank_page]
  from t have "fetches (snd (bootstrap anonymous_host demo_network blank_page))
      = fetches blank_page @ [''app-config.json'']"
    by (rule conjunct1)
  then have f: "fetches (snd (bootstrap anonymous_host demo_network blank_page)) = [''app-config.json'']"
    by (simp add: blank_page_def)
  from t demo_config_responds
  have "paymentsCard_hidden (snd (bootstrap anonymous_host demo_network blank_page))
     \<and> statusBadge_text (snd (bootstrap anonymous_host demo_network blank_page)) = ''Not authorized''"
    by blast
  with f show ?thesis by simp
qed

text \<open>
  C5 in the wording of the specification fails when the configuration fetch rejects: the promise of \<open>bootstrap\<close>
  rejects before the token is looked at, no section is hidden and no message is shown.
\<close>

theorem no_token_config_rejects_counterexample:
  "fst (bootstrap anonymous_host (demo_network\<lparr>config_reply := Rejects ''Failed to fetch''\<rparr>)
         blank_page) = Threw ''Failed to fetch''
   \<and> \<not> paymentsCard_hidden
        (snd (bootstrap anonymous_host (demo_network\<lparr>config_reply := Rejects ''Failed to fetch''\<rparr>)
           blank_page))
   \<and> subscriptionMeta
        (snd (bootstrap anonymous_host (demo_network\<lparr>config_reply := Rejects ''Failed to fetch''\<rparr>)
           blank_page)) = []"
  by (simp add: bootstrap_def loadConfig_def Let_def blank_page_def)

text \<open>
  C6. A section whose collection is empty is hidden and one whose collection is not empty
  is shown: the device list has one entry per device, in order; the transaction list has
  one entry for each of the first five transactions, in the order received; the link list
  has one entry for every distinct link offered (the links are a set), in the order of
  their first occurrence.
\<close>

theorem sections_follow_collections:
  "devicesCard_hidden (renderDevices sub p) = (device_collection sub = [])
   \<and> deviceList (renderDevices sub p) = map device_label (device_collection sub)
   \<and> transactionsCard_hidden (renderTransactions h sub p) = (transaction_collection sub = [])
   \<and> transactionList (renderTransactions h sub p)
       = map (transaction_item h) (take 5 (transaction_collection sub))
   \<and> actionsCard_hidden (renderActions sub p) = (link_collection sub = [])
   \<and> actionList (renderActions sub p) = first_occurrences (link_collection sub)
   \<and> set (actionList (renderActions sub p)) = set (link_collection sub)
   \<and> distinct (actionList (renderActions sub p))"
proof -
  have dev: "devicesCard_hidden (renderDevices sub p) = (device_collection sub = [])
     \<and> deviceList (renderDevices sub p) = map device_label (device_collection sub)"
    by (simp add: renderDevices_def device_collection_def Let_def)
  have tx: "transactionsCard_hidden (renderTransactions h sub p) = (transaction_collection sub = [])
     \<and> transactionList (renderTransactions h sub p)
       = map (transaction_item h) (take 5 (transaction_collection sub))"
    by (simp add: renderTransactions_def transaction_collection_def Let_def)
  have eq: "actionList (renderActions sub p) = action_links sub"
    by (simp add: renderActions_def Let_def)
  have hid: "actionsCard_hidden (renderActions sub p) = (action_links sub = [])"
    by (simp add: renderActions_def Let_def)
  have first: "action_links sub = first_occurrences (link_collection sub)"
    by (rule action_links_first)
  have "(first_occurrences (link_collection sub) = []) = (link_collection sub = [])"
    by (simp add: first_occurrences_def)
  with dev tx eq hid first show ?thesis by (simp add: first_occurrences_def)
qed

theorem sections_follow_collections_witness:
  "devicesCard_hidden (renderDevices demo_subscription blank_page)
   \<and> length (transactionList (renderTransactions demo_host demo_subscription blank_page)) = 5
   \<and> actionList (renderActions demo_subscription blank_page) = [''https://sub.example/u7'']"
proof -
  have dc: "device_collection demo_subscription = []"
    by (simp add: device_collection_def demo_subscription_def)
  have tc: "length (take 5 (transaction_collection demo_subscription)) = 5"
    by (simp add: transaction_collection_def demo_subscription_def)
  have "link_collection demo_subscription = [''https://sub.example/u7'', ''https://sub.example/u7'']"
    by (simp add: link_collection_def demo_subscription_def truthy_def)
  then have lc: "first_occurrences (link_collection demo_subscription) = [''https://sub.example/u7'']"
    by (simp add: first_occurrences_def)
  show ?thesis
    using sections_follow_collections [of demo_subscription blank_page demo_host] dc tc lc
    by simp
qed

text \<open>
  C7. In a bootstrap pass with a token in which the configuration and the account have
  loaded, a failure of the payment-methods load changes the page the account load left in
  one place only: the payment panel is hidden (the request and a console warning are
  logged). The pass ends normally and the status area is what the account load wrote.
\<close>

theorem payment_methods_failure_is_local:
  assumes methods: "fetchJson (methods_reply net) = Inl msg"
    and config: "loadConfig (config_reply net) (started h p) = (Returned, p1)"
    and token: "readInitData h \<noteq> []"
    and account: "loadSubscription h (subscription_reply net) p1 = (Returned, p2)"
  shows "bootstrap h net p =
           (Returned,
            p2\<lparr>fetches := fetches p2 @ [''/miniapp/payments/methods''],
                console := console p2 @ [''Payments unavailable''],
                paymentsCard_hidden := True\<rparr>)"
proof -
  have "st_initData p1 = readInitData h"
    using loadConfig_initData [of "config_reply net" "started h p"] config
    by (simp add: started_def)
  with token have "st_initData p1 \<noteq> []" by simp
  moreover have "loadPayments (methods_reply net) p2 =
      p2\<lparr>fetches := fetches p2 @ [''/miniapp/payments/methods''],
          console := console p2 @ [''Payments unavailable''],
          paymentsCard_hidden := True\<rparr>"
    using methods by (simp add: loadPayments_def Let_def)
  ultimately show ?thesis
    using config account by (simp add: bootstrap_def started_def Let_def)
qed

theorem payment_methods_failure_is_local_witness:
  "paymentsCard_hidden
     (snd (bootstrap demo_host (demo_network\<lparr>methods_reply := Rejects ''Failed to fetch''\<rparr>)
        blank_page))
   \<and> fst (bootstrap demo_host (demo_network\<lparr>methods_reply := Rejects ''Failed to fetch''\<rparr>)
        blank_page) = Returned"
proof -
  let ?net = "demo_network\<lparr>methods_reply := Rejects ''Failed to fetch''\<rparr>"
  let ?p1 = "snd (loadConfig (config_reply ?net) (started demo_host blank_page))"
  let ?p2 = "snd (loadSubscription demo_host (subscription_reply ?net) ?p1)"
  have m: "fetchJson (methods_reply ?net) = Inl ''Failed to fetch''"
    by (simp add: fetchJson_def)
  have "responds (config_reply ?net)" by (simp add: responds_def demo_network_def)
  then have c: "loadConfig (config_reply ?net) (started demo_host blank_page) = (Returned, ?p1)"
    using loadConfig_responds [of "config_reply ?net" "started demo_host blank_page"]
    by (simp add: prod_eq_iff)
  have "fetchJson (subscription_reply ?net) = Inr demo_subscription"
    by (simp add: fetchJson_def demo_network_def)
  then have a: "loadSubscription demo_host (subscription_reply ?net) ?p1 = (Returned, ?p2)"
    using loadSubscription_returns [of "subscription_reply ?net" demo_subscription demo_host ?p1]
    by (simp add: prod_eq_iff)
  show ?thesis
    using payment_methods_failure_is_local [OF m c demo_token a] by simp
qed

text \<open>
  C8. A browser delivers no click to a disabled button. With that, in every state a pay
  button can reach by clicks, settled requests and edits of the amount, at most one
  payment-create request of the button is under way, and the button is disabled exactly
  while one is: the click handler disables the button before the request goes out, so no
  step leads to two requests in flight, and the handler enables it again when the request
  settles, with success or failure.
\<close>

theorem one_request_at_a_time:
  assumes "reachable h tok m s"
  shows "in_flight s \<le> 1
    \<and> (button_disabled (widget s) \<longleftrightarrow> in_flight s = 1)
    \<and> (\<forall>s'. step h tok s s' \<longrightarrow> in_flight s' \<le> 1)
    \<and> button_disabled (widget (click tok s))
    \<and> \<not> button_disabled (widget (settle h r s))"
proof -
  have step_inv: "in_flight b \<le> 1 \<and> (button_disabled (widget b) \<longleftrightarrow> in_flight b = 1)"
    if "step h tok a b" and "in_flight a \<le> 1"
      and "button_disabled (widget a) \<longleftrightarrow> in_flight a = 1" for a b
    using that
  proof (induction rule: step.induct)
    case (Click s)
    then show ?case by (simp add: click_def)
  next
    case (Settle s r)
    then show ?case by (cases "try_result h r") (auto simp: settle_def)
  next
    case (Edit s v)
    then show ?case by (simp add: enter_amount_def)
  qed
  have inv: "in_flight s \<le> 1 \<and> (button_disabled (widget s) \<longleftrightarrow> in_flight s = 1)"
    using assms
  proof (induction rule: reachable.induct)
    case Start
    show ?case by (simp add: new_session_def payment_widget_def)
  next
    case (Next s s')
    then show ?case using step_inv by blast
  qed
  moreover have "\<forall>s'. step h tok s s' \<longrightarrow> in_flight s' \<le> 1"
    using inv step_inv by blast
  moreover have "button_disabled (widget (click tok s))" by (simp add: click_def)
  moreover have "\<not> button_disabled (widget (settle h r s))"
    by (cases "try_result h r") (simp_all add: settle_def)
  ultimately show ?thesis by blast
qed

theorem one_request_at_a_time_witness:
  "reachable demo_host ''t'' demo_method (click ''t'' (new_session demo_method))
   \<and> in_flight (click ''t'' (new_session demo_method)) = 1
   \<and> button_disabled (widget (click ''t'' (new_session demo_method)))"
proof -
  have "\<not> button_disabled (widget (new_session demo_method))"
    by (simp add: new_session_def payment_widget_def)
  then have r: "reachable demo_host ''t'' demo_method (click ''t'' (new_session demo_method))"
    by (intro reachable.Next [OF reachable.Start] step.Click)
  have "in_flight (click ''t'' (new_session demo_method)) = 1"
    by (simp add: click_def new_session_def)
  then show ?thesis
    using r one_request_at_a_time [OF r] by simp
qed

text \<open>
  C9 (in the form that holds of the code). For every amount of \<open>n\<close> minor units below \<open>100 * 2 ^ 46\<close> (7036874417766400), formatAmount gives \<open>n / 100\<close> with exactly two decimals, that is the
  digits of \<open>n div 100\<close>, a point and the two digits of \<open>n mod 100\<close>, then a space and the
  currency sign (the default sign when none is passed). For every input that is not a
  number it gives the placeholder.
\<close>

theorem formatAmount_cents:
  "(n < 100 * 2 ^ 46 \<longrightarrow>
      formatAmount h (JNum (of_nat n)) cur
        = cents_text n @ '' '' @ (case cur of None \<Rightarrow> default_currency | Some c \<Rightarrow> c))
   \<and> (\<not> typeof_number v \<longrightarrow> formatAmount h v cur = placeholder)"
proof -
  have "formatAmount h (JNum (of_nat n)) cur
        = cents_text n @ '' '' @ (case cur of None \<Rightarrow> default_currency | Some c \<Rightarrow> c)"
    if n: "n < 100 * 2 ^ 46"
  proof -
    have "toFixed (numberToString h) (js_div (of_nat n) 100) 2 = cents_text n"
      using nearest_cent [OF n] point_two_digits [of n]
      by (simp add: toFixed_def Let_def)
    then show ?thesis by (simp add: formatAmount_def)
  qed
  moreover have "formatAmount h v cur = placeholder" if "\<not> typeof_number v"
    using that by (cases v) (simp_all add: formatAmount_def typeof_number_def)
  ultimately show ?thesis by blast
qed

theorem formatAmount_cents_witness:
  "formatAmount demo_host (JNum 123456) None = ''1234.56 '' @ default_currency
   \<and> formatAmount demo_host (JStr ''12'') None = placeholder"
proof -
  have n: "(123456::nat) < 100 * 2 ^ 46" by simp
  have t: "\<not> typeof_number (JStr ''12'')" by (simp add: typeof_number_def)
  have "dec_nat 1234 = ''1234''" by (simp add: dec_nat.simps digit_def)
  then have c: "cents_text 123456 = ''1234.56''" by (simp add: cents_text_def digit_def)
  show ?thesis
    using formatAmount_cents [of 123456 demo_host None "JStr ''12''"] n t c by simp
qed

text \<open>
  C9 in the wording of the specification fails from \<open>100 * 2 ^ 46 + 1\<close> minor units on: the quotient by 100 is
  rounded to a double whose second decimal is another one.
\<close>

theorem formatAmount_large_counterexample:
  "formatAmount demo_host (JNum 7036874417766401) None
     = ''70368744177664.02 '' @ default_currency
   \<and> cents_text 7036874417766401 = ''70368744177664.01''"
proof -
  have "\<lfloor>\<bar>4503599627370497 / 64 :: rat\<bar> * 10 ^ 2 + 1 / 2\<rfloor> = 7036874417766402"
    by (rule floor_unique) simp_all
  then have n: "nat \<lfloor>\<bar>4503599627370497 / 64 :: rat\<bar> * 10 ^ 2 + 1 / 2\<rfloor> = 7036874417766402"
    by simp
  have d: "dec_nat 7036874417766402 = ''7036874417766402''"
    by (simp add: dec_nat.simps digit_def)
  have "toFixed (numberToString demo_host) (4503599627370497 / 64) 2 = ''70368744177664.02''"
    unfolding toFixed_def Let_def n d by simp
  then have a: "formatAmount demo_host (JNum 7036874417766401) None
     = ''70368744177664.02 '' @ default_currency"
    by (simp add: formatAmount_def js_div_above_2_46)
  have "dec_nat 70368744177664 = ''70368744177664''"
    by (simp add: dec_nat.simps digit_def)
  then have "cents_text 7036874417766401 = ''70368744177664.01''"
    by (simp add: cents_text_def digit_def)
  with a show ?thesis by simp
qed

text \<open>
  C10. For every user-agent string, detectPlatform returns one tag of the closed set ios,
  android, windows, mac, linux, androidTV, generic (the tags are pairwise different, so it
  is exactly one). The tests run in the order iOS, Android, Windows, Mac, Linux, AndroidTV
  and the first that matches decides: a tag is returned exactly when its pattern matches
  and no pattern before it does, and generic exactly when no pattern matches.
\<close>

theorem detectPlatform_priority:
  "detectPlatform ua \<in> set platform_tags \<and> distinct platform_tags
   \<and> (detectPlatform ua = ''ios'' \<longleftrightarrow> is_ios ua)
   \<and> (detectPlatform ua = ''android'' \<longleftrightarrow> \<not> is_ios ua \<and> is_android ua)
   \<and> (detectPlatform ua = ''windows'' \<longleftrightarrow> \<not> is_ios ua \<and> \<not> is_android ua \<and> is_windows ua)
   \<and> (detectPlatform ua = ''mac'' \<longleftrightarrow>
        \<not> is_ios ua \<and> \<not> is_android ua \<and> \<not> is_windows ua \<and> is_mac ua)
   \<and> (detectPlatform ua = ''linux'' \<longleftrightarrow>
        \<not> is_ios ua \<and> \<not> is_android ua \<and> \<not> is_windows ua \<and> \<not> is_mac ua \<and> is_linux ua)
   \<and> (detectPlatform ua = ''androidTV'' \<longleftrightarrow>
        \<not> is_ios ua \<and> \<not> is_android ua \<and> \<not> is_windows ua \<and> \<not> is_mac ua \<and> \<not> is_linux ua
        \<and> is_tv ua)
   \<and> (detectPlatform ua = ''generic'' \<longleftrightarrow>
        \<not> is_ios ua \<and> \<not> is_android ua \<and> \<not> is_windows ua \<and> \<not> is_mac ua \<and> \<not> is_linux ua
        \<and> \<not> is_tv ua)"
  unfolding detectPlatform_def pattern_defs platform_tags_def Let_def
  by simp

end
